theory Spec2Isabelle
  imports Complex_Main "HOL-Library.Char_ord" "HOL-Library.List_Lexorder"
    "HOL-Library.Product_Lexorder" "HOL-Library.Log_Nat"
begin

section \<open>Floating-point numbers\<close>

text \<open>
  A Python \<^verbatim>\<open>float\<close> and a numpy \<^verbatim>\<open>float64\<close> are IEEE 754 binary64 numbers: a
  finite value (a rational \<open>m \<cdot> 2\<^sup>q\<close> with \<open>|m| \<le> 2\<^sup>5\<^sup>3\<close> and \<open>q \<ge> -1074\<close>), an infinity or a
  NaN. The negative zero equals zero in every comparison of the program and is not told
  apart from it. An arithmetic operation computes the exact result and rounds it to the
  nearest double, a tie going to the one with the even significand; a result beyond the
  largest double becomes an infinity.
\<close>

datatype pyfloat = Fin rat | PInf | NInf | FNaN

instantiation pyfloat :: zero
begin
definition zero_pyfloat :: pyfloat where
  "zero_pyfloat = Fin 0"
instance ..
end

definition round_half_even :: "rat \<Rightarrow> int" where
  "round_half_even x =
     (let f = \<lfloor>x\<rfloor>; d = x - of_int f
      in if d < 1 / 2 then f
         else if 1 / 2 < d then f + 1
         else if even f then f else f + 1)"

definition pow2 :: "int \<Rightarrow> rat" where
  "pow2 k = (if 0 \<le> k then 2 ^ nat k else 1 / 2 ^ nat (- k))"

text \<open>
  \<open>\<lfloor>log\<^sub>2 x\<rfloor>\<close> of a positive rational, from the bit lengths of its numerator and
  denominator.
\<close>

definition ilog2 :: "rat \<Rightarrow> int" where
  "ilog2 x =
     (case quotient_of x of
        (p, q) \<Rightarrow> (let k = bitlen p - bitlen q in if pow2 k \<le> x then k else k - 1))"

definition infinity :: "bool \<Rightarrow> pyfloat" where
  "infinity positive = (if positive then PInf else NInf)"

text \<open>
  The double nearest to a rational. With \<open>e = \<lfloor>log\<^sub>2 |x|\<rfloor>\<close>, the doubles around \<open>x\<close> are
  the multiples of \<open>2\<^sup>q\<close>, \<open>q = max (e - 52) (-1074)\<close> (the second bound is that of the
  subnormal numbers). The largest double is \<open>(2\<^sup>5\<^sup>3 - 1) \<cdot> 2\<^sup>9\<^sup>7\<^sup>1\<close>: a number that rounds
  to \<open>2\<^sup>1\<^sup>0\<^sup>2\<^sup>4\<close> or lies beyond it becomes an infinity.
\<close>

definition round_double :: "rat \<Rightarrow> pyfloat" where
  "round_double x =
     (if x = 0 then Fin 0
      else let a = \<bar>x\<bar>; e = ilog2 a
           in if 1023 < e then infinity (0 < x)
              else let q = max (e - 52) (- 1074);
                       m = round_half_even (a / pow2 q)
                   in if e = 1023 \<and> m = 2 ^ 53 then infinity (0 < x)
                      else Fin (sgn x * of_int m * pow2 q))"

text \<open>The value of a float literal of the program, such as \<^verbatim>\<open>1.728\<close>.\<close>

definition literal :: "rat \<Rightarrow> rat" where
  "literal x = (case round_double x of Fin r \<Rightarrow> r | _ \<Rightarrow> 0)"

fun fneg :: "pyfloat \<Rightarrow> pyfloat" where
  "fneg (Fin a) = Fin (- a)"
| "fneg PInf = NInf"
| "fneg NInf = PInf"
| "fneg FNaN = FNaN"

fun fabs :: "pyfloat \<Rightarrow> pyfloat" where
  "fabs (Fin a) = Fin \<bar>a\<bar>"
| "fabs PInf = PInf"
| "fabs NInf = PInf"
| "fabs FNaN = FNaN"

text \<open>The sign of a number that is not a NaN.\<close>

fun fsign :: "pyfloat \<Rightarrow> int" where
  "fsign (Fin a) = (if a < 0 then - 1 else if a = 0 then 0 else 1)"
| "fsign PInf = 1"
| "fsign NInf = - 1"
| "fsign FNaN = 0"

fun fadd :: "pyfloat \<Rightarrow> pyfloat \<Rightarrow> pyfloat" where
  "fadd FNaN y = FNaN"
| "fadd x FNaN = FNaN"
| "fadd (Fin a) (Fin b) = round_double (a + b)"
| "fadd PInf NInf = FNaN"
| "fadd NInf PInf = FNaN"
| "fadd PInf y = PInf"
| "fadd NInf y = NInf"
| "fadd x PInf = PInf"
| "fadd x NInf = NInf"

definition fsub :: "pyfloat \<Rightarrow> pyfloat \<Rightarrow> pyfloat" where
  "fsub x y = fadd x (fneg y)"

fun fmul :: "pyfloat \<Rightarrow> pyfloat \<Rightarrow> pyfloat" where
  "fmul FNaN y = FNaN"
| "fmul x FNaN = FNaN"
| "fmul (Fin a) (Fin b) = round_double (a * b)"
| "fmul x y = (if fsign x * fsign y = 0 then FNaN else infinity (0 < fsign x * fsign y))"

text \<open>
  Division by a positive finite constant, the only division of the program
  (by \<^verbatim>\<open>1_000_000\<close>, \<^verbatim>\<open>1300\<close> and \<^verbatim>\<open>1.728\<close>, and by a power of ten in numpy's rounding).
\<close>

fun fdiv_by :: "pyfloat \<Rightarrow> rat \<Rightarrow> pyfloat" where
  "fdiv_by (Fin a) c = round_double (a / c)"
| "fdiv_by x c = x"

text \<open>\<^verbatim>\<open>x <= y\<close> on the exact values; every comparison with a NaN is false.\<close>

fun fle :: "pyfloat \<Rightarrow> pyfloat \<Rightarrow> bool" where
  "fle FNaN y = False"
| "fle x FNaN = False"
| "fle NInf y = True"
| "fle x PInf = True"
| "fle (Fin a) (Fin b) = (a \<le> b)"
| "fle x y = False"

text \<open>\<^verbatim>\<open>x < y\<close>.\<close>

definition flt :: "pyfloat \<Rightarrow> pyfloat \<Rightarrow> bool" where
  "flt x y = (fle x y \<and> x \<noteq> y)"

text \<open>
  \<^verbatim>\<open>round(x, d)\<close> on a Python float with \<open>d \<ge> 0\<close>: the exact value of \<open>x\<close> is rounded
  to \<open>d\<close> decimals, a tie going to the even digit, and the decimal result is read back
  as the nearest double. An infinity or a NaN is returned as it is.
\<close>

fun round_float :: "nat \<Rightarrow> pyfloat \<Rightarrow> pyfloat" where
  "round_float d (Fin x) = round_double (of_int (round_half_even (x * 10 ^ d)) / 10 ^ d)"
| "round_float d x = x"

text \<open>
  \<^verbatim>\<open>round(x, d)\<close> on a numpy \<^verbatim>\<open>float64\<close> is \<^verbatim>\<open>x.round(d)\<close>: for \<open>d > 0\<close> the number
  is multiplied by \<open>10\<^sup>d\<close>, rounded to the nearest integer (\<^verbatim>\<open>rint\<close>, a tie going to the
  even one) and divided by \<open>10\<^sup>d\<close>, each step in floating point; for \<open>d = 0\<close> it is
  \<^verbatim>\<open>rint\<close> alone.
\<close>

fun rint :: "pyfloat \<Rightarrow> pyfloat" where
  "rint (Fin x) = Fin (of_int (round_half_even x))"
| "rint x = x"

definition np_round :: "nat \<Rightarrow> pyfloat \<Rightarrow> pyfloat" where
  "np_round d x = (if d = 0 then rint x else fdiv_by (rint (fmul x (Fin (10 ^ d)))) (10 ^ d))"

section \<open>Python values\<close>

text \<open>
  The program (\<^verbatim>\<open>streamlit_app.py\<close>) works on the decoded JSON of the invoicing
  service: \<^verbatim>\<open>None\<close>, booleans, integers, floats, strings, lists and dictionaries
  with string keys. Python's unbounded \<^verbatim>\<open>int\<close> is \<^typ>\<open>int\<close>. \<^verbatim>\<open>json.loads\<close> reads
  \<^verbatim>\<open>NaN\<close> and \<^verbatim>\<open>Infinity\<close> too, so a float of the input is any \<^typ>\<open>pyfloat\<close>. A
  dictionary is an association list read with \<^const>\<open>map_of\<close>.
\<close>

datatype pyval =
    VNone
  | VBool bool
  | VInt int
  | VFloat pyfloat
  | VStr string
  | VList "pyval list"
  | VDict "(string \<times> pyval) list"

datatype pyerr = TypeError | AttributeError | KeyError | OverflowError | ValueError

text \<open>\<^verbatim>\<open>bool(v)\<close>, as used by \<^verbatim>\<open>not\<close>, \<^verbatim>\<open>or\<close>, \<^verbatim>\<open>and\<close> and the conditional expression.\<close>

fun truthy :: "pyval \<Rightarrow> bool" where
  "truthy VNone = False"
| "truthy (VBool b) = b"
| "truthy (VInt i) = (i \<noteq> 0)"
| "truthy (VFloat x) = (x \<noteq> Fin 0)"
| "truthy (VStr s) = (s \<noteq> [])"
| "truthy (VList xs) = (xs \<noteq> [])"
| "truthy (VDict kv) = (kv \<noteq> [])"

text \<open>\<^verbatim>\<open>a or b\<close>.\<close>

definition py_or :: "pyval \<Rightarrow> pyval \<Rightarrow> pyval" where
  "py_or a b = (if truthy a then a else b)"

text \<open>\<^verbatim>\<open>isinstance(v, (int, float))\<close>: \<^verbatim>\<open>bool\<close> is a subclass of \<^verbatim>\<open>int\<close>.\<close>

fun is_number :: "pyval \<Rightarrow> bool" where
  "is_number (VBool b) = True"
| "is_number (VInt i) = True"
| "is_number (VFloat x) = True"
| "is_number v = False"

text \<open>
  The exact value of a number (\<^verbatim>\<open>True\<close> is 1, \<^verbatim>\<open>False\<close> is 0): Python compares an
  \<^verbatim>\<open>int\<close> with a \<^verbatim>\<open>float\<close> by value, without converting the integer.
\<close>

fun num_of :: "pyval \<Rightarrow> pyfloat option" where
  "num_of (VBool b) = Some (Fin (if b then 1 else 0))"
| "num_of (VInt i) = Some (Fin (of_int i))"
| "num_of (VFloat x) = Some x"
| "num_of v = None"

text \<open>The integer value of an \<^verbatim>\<open>int\<close> or \<^verbatim>\<open>bool\<close>; \<open>None\<close> for everything else.\<close>

fun int_of :: "pyval \<Rightarrow> int option" where
  "int_of (VBool b) = Some (if b then 1 else 0)"
| "int_of (VInt i) = Some i"
| "int_of v = None"

text \<open>
  \<^verbatim>\<open>float(i)\<close> of an integer, also applied to the integer operand of an arithmetic
  operation whose other operand is a float: the nearest double, and \<^verbatim>\<open>OverflowError\<close>
  when the integer is beyond the doubles.
\<close>

definition float_of_int :: "int \<Rightarrow> pyerr + pyfloat" where
  "float_of_int i =
     (case round_double (of_int i) of Fin x \<Rightarrow> Inr (Fin x) | _ \<Rightarrow> Inl OverflowError)"

fun to_float :: "pyval \<Rightarrow> pyerr + pyfloat" where
  "to_float (VBool b) = Inr (Fin (if b then 1 else 0))"
| "to_float (VInt i) = float_of_int i"
| "to_float (VFloat x) = Inr x"
| "to_float v = Inl TypeError"

text \<open>
  Arithmetic on numbers: exact on two integers (\<^verbatim>\<open>int\<close> or \<^verbatim>\<open>bool\<close>); otherwise both
  operands become floats and the floating-point operation is applied. An operand that is
  not a number gives \<^verbatim>\<open>TypeError\<close>.
\<close>

definition num_binop ::
  "(int \<Rightarrow> int \<Rightarrow> int) \<Rightarrow> (pyfloat \<Rightarrow> pyfloat \<Rightarrow> pyfloat) \<Rightarrow> pyval \<Rightarrow> pyval \<Rightarrow> pyerr + pyval" where
  "num_binop fi ff a b =
     (if \<not> is_number a \<or> \<not> is_number b then Inl TypeError
      else case (int_of a, int_of b) of
             (Some i, Some j) \<Rightarrow> Inr (VInt (fi i j))
           | _ \<Rightarrow> (case to_float a of
                     Inl e \<Rightarrow> Inl e
                   | Inr x \<Rightarrow> (case to_float b of
                                 Inl e \<Rightarrow> Inl e
                               | Inr y \<Rightarrow> Inr (VFloat (ff x y)))))"

definition py_sub :: "pyval \<Rightarrow> pyval \<Rightarrow> pyerr + pyval" where
  "py_sub = num_binop (-) fsub"

text \<open>
  \<^verbatim>\<open>a * b\<close>. When an operand is a string or a list and the other an integer, Python
  builds the repeated sequence, which \<^verbatim>\<open>round\<close> then refuses with \<^verbatim>\<open>TypeError\<close>; the
  only use of the product is under \<^verbatim>\<open>round\<close>, so the model goes to \<^verbatim>\<open>TypeError\<close> at
  once. (A repetition too large to be built fails earlier, with another exception; the
  model does not tell the two apart.)
\<close>

definition py_mul :: "pyval \<Rightarrow> pyval \<Rightarrow> pyerr + pyval" where
  "py_mul = num_binop (*) fmul"

text \<open>\<^verbatim>\<open>abs(v)\<close> of a number.\<close>

fun py_abs :: "pyval \<Rightarrow> pyval" where
  "py_abs (VBool b) = VInt (if b then 1 else 0)"
| "py_abs (VInt i) = VInt \<bar>i\<bar>"
| "py_abs (VFloat x) = VFloat (fabs x)"
| "py_abs v = v"

text \<open>
  \<^verbatim>\<open>a >= b\<close> with a number on the left: numbers compare by exact value across
  \<^verbatim>\<open>bool\<close>, \<^verbatim>\<open>int\<close> and \<^verbatim>\<open>float\<close>, and a comparison with a NaN is false; a number
  against anything else raises \<^verbatim>\<open>TypeError\<close>.
\<close>

definition py_ge :: "pyval \<Rightarrow> pyval \<Rightarrow> pyerr + bool" where
  "py_ge a b =
     (case (num_of a, num_of b) of
        (Some x, Some y) \<Rightarrow> Inr (fle y x)
      | _ \<Rightarrow> Inl TypeError)"

text \<open>
  \<^verbatim>\<open>round(v, d)\<close> with \<open>d \<ge> 0\<close> on a Python number: an \<^verbatim>\<open>int\<close> is returned as it
  is; \<open>None\<close> stands for the \<^verbatim>\<open>TypeError\<close> on anything else.
\<close>

fun py_round :: "nat \<Rightarrow> pyval \<Rightarrow> pyval option" where
  "py_round d (VBool b) = Some (VInt (if b then 1 else 0))"
| "py_round d (VInt i) = Some (VInt i)"
| "py_round d (VFloat x) = Some (VFloat (round_float d x))"
| "py_round d v = None"

subsection \<open>Dictionaries\<close>

text \<open>\<^verbatim>\<open>d.get(k)\<close> and \<^verbatim>\<open>d.get(k, default)\<close> on a JSON object.\<close>

definition dget_default :: "(string \<times> pyval) list \<Rightarrow> string \<Rightarrow> pyval \<Rightarrow> pyval" where
  "dget_default kv k d = (case map_of kv k of None \<Rightarrow> d | Some v \<Rightarrow> v)"

definition dget :: "(string \<times> pyval) list \<Rightarrow> string \<Rightarrow> pyval" where
  "dget kv k = dget_default kv k VNone"

text \<open>
  A dictionary built by the program is keyed by Python values. Lists and dictionaries
  are unhashable (using one as a key raises \<^verbatim>\<open>TypeError\<close>); among the hashable values
  numbers are equal as keys when their values are (\<^verbatim>\<open>1 == 1.0 == True\<close>), anything else
  when it is the same value. Every key of the program comes straight from the decoded
  JSON, where all NaN are one object, which a dictionary finds again by identity: a NaN
  key equals a NaN key and no other number. The dictionary keeps insertion order, and
  storing under a key that is already there replaces the value in place.
\<close>

fun hashable :: "pyval \<Rightarrow> bool" where
  "hashable (VList xs) = False"
| "hashable (VDict kv) = False"
| "hashable v = True"

definition py_eq :: "pyval \<Rightarrow> pyval \<Rightarrow> bool" where
  "py_eq a b =
     (case (num_of a, num_of b) of
        (Some x, Some y) \<Rightarrow> x = y
      | (None, None) \<Rightarrow> a = b
      | _ \<Rightarrow> False)"

fun dict_get :: "(pyval \<times> 'v) list \<Rightarrow> pyval \<Rightarrow> 'v option" where
  "dict_get [] k = None"
| "dict_get ((k', v) # d) k = (if py_eq k' k then Some v else dict_get d k)"

fun dict_set :: "(pyval \<times> 'v) list \<Rightarrow> pyval \<Rightarrow> 'v \<Rightarrow> (pyval \<times> 'v) list" where
  "dict_set [] k v = [(k, v)]"
| "dict_set ((k', v') # d) k v =
     (if py_eq k' k then (k', v) # d else (k', v') # dict_set d k v)"

section \<open>The catalog index: \<^verbatim>\<open>build_product_lookup\<close>\<close>

text \<open>
  Every entry of the index is a dictionary with the same five keys, so it is a record
  here. Each field holds whatever \<^verbatim>\<open>p.get(...)\<close> returned, \<^verbatim>\<open>None\<close> when the
  product record lacks the key.
\<close>

record info =
  info_Product :: pyval
  info_SKU :: pyval
  info_Stock_Real :: pyval
  info_Weight :: pyval
  info_Attributes :: pyval

type_synonym lookup = "(pyval \<times> info) list"

definition product_pid :: "(string \<times> pyval) list \<Rightarrow> pyval" where
  "product_pid p = py_or (dget p ''id'') (dget p ''productId'')"

definition product_info :: "(string \<times> pyval) list \<Rightarrow> info" where
  "product_info p =
     \<lparr> info_Product = dget p ''name'',
       info_SKU = dget p ''sku'',
       info_Stock_Real = dget p ''stock'',
       info_Weight = dget p ''weight'',
       info_Attributes = dget p ''attributes'' \<rparr>"

text \<open>
  The loop over \<^verbatim>\<open>products\<close>, with the dictionary built so far as accumulator.
  \<^verbatim>\<open>p.get\<close> on anything but a dictionary raises \<^verbatim>\<open>AttributeError\<close>; storing under an
  unhashable identifier raises \<^verbatim>\<open>TypeError\<close>.
\<close>

fun build_product_lookup_loop :: "lookup \<Rightarrow> pyval list \<Rightarrow> pyerr + lookup" where
  "build_product_lookup_loop lookup [] = Inr lookup"
| "build_product_lookup_loop lookup (VDict p # ps) =
     (let pid = product_pid p
      in if hashable pid
         then build_product_lookup_loop (dict_set lookup pid (product_info p)) ps
         else Inl TypeError)"
| "build_product_lookup_loop lookup (v # ps) = Inl AttributeError"

definition build_product_lookup :: "pyval list \<Rightarrow> pyerr + lookup" where
  "build_product_lookup products = build_product_lookup_loop [] products"

section \<open>The report: columns, lines and library functions\<close>

text \<open>The columns of the report. \<open>col_name\<close> gives the published header of each.\<close>

datatype col =
    SKU | Product | Units | Subtotal_Units
  | Gross_Weight | Total_Weight | Subtotal_Total_Weight
  | Volume | Subtotal_Volume
  | Stock_Real | Insuficiente | Falta | Subtotal_Falta | Extra

fun col_name :: "col \<Rightarrow> string" where
  "col_name SKU = ''SKU''"
| "col_name Product = ''Product''"
| "col_name Units = ''Units''"
| "col_name Subtotal_Units = ''Subtotal > Units''"
| "col_name Gross_Weight = ''Gross Weight (kg)''"
| "col_name Total_Weight = ''Total Weight (kg)''"
| "col_name Subtotal_Total_Weight = ''Subtotal > Total Weight (kg)''"
| "col_name Volume = ''Volume (m'' @ [CHR 0xC2, CHR 0xB3] @ '')''"
| "col_name Subtotal_Volume = ''Subtotal > Volume (m'' @ [CHR 0xC2, CHR 0xB3] @ '')''"
| "col_name Stock_Real = ''Stock Real''"
| "col_name Insuficiente = ''Insuficiente?''"
| "col_name Falta = ''Falta''"
| "col_name Subtotal_Falta = ''Subtotal > Falta''"
| "col_name Extra = ''Extra''"

text \<open>The \<^verbatim>\<open>data\<close> dictionary of one resolved line, in the order its keys are written.\<close>

type_synonym data = "(col \<times> pyval) list"

definition field :: "data \<Rightarrow> col \<Rightarrow> pyval" where
  "field d c = (case map_of d c of None \<Rightarrow> VNone | Some v \<Rightarrow> v)"

text \<open>
  A cell of a table holds a Python object or is missing (pandas' NaN for a key that a
  row does not have). A numpy number is written as the Python number of the same value:
  a \<^verbatim>\<open>float64\<close> as a float, an \<^verbatim>\<open>int64\<close> as an integer.
\<close>

datatype cell = Obj pyval | NaN

type_synonym row = "(col \<times> cell) list"

text \<open>A number in a numeric column of pandas: a 64-bit integer or a \<^verbatim>\<open>float64\<close>.\<close>

datatype number = NInt int | NFloat pyfloat

text \<open>
  Library behaviour that is not part of this program is a parameter of the model, and
  every theorem holds for all values of the parameters:
  \<^item> \<open>float_of_str\<close>: \<^verbatim>\<open>float(s)\<close> on a string, \<open>None\<close> where it raises \<^verbatim>\<open>ValueError\<close>;
  \<^item> \<open>numeric_of_str\<close>: what \<^verbatim>\<open>pd.to_numeric(..., errors="coerce")\<close> makes of a string
    (a NaN when the string is not a number);
  \<^item> \<open>str_of_number\<close>: \<^verbatim>\<open>str(v)\<close> of a number, as an f-string inserts it;
  \<^item> \<open>float_sum\<close>: the sum numpy returns for an array of three or more \<^verbatim>\<open>float64\<close> that
    are not zero, which depends on the order in which numpy adds them (sums of at most
    two such numbers do not, and are computed by the model);
  \<^item> \<open>wide_subtotals\<close>: what \<^verbatim>\<open>pd.DataFrame\<close>, \<^verbatim>\<open>pd.to_numeric\<close> and \<^verbatim>\<open>sum\<close> make of a
    group in which a cell holds an integer outside the 64-bit range: the four subtotal
    cells, or the exception raised.
\<close>

record env =
  float_of_str :: "string \<Rightarrow> pyfloat option"
  numeric_of_str :: "string \<Rightarrow> number"
  str_of_number :: "pyval \<Rightarrow> string"
  float_sum :: "pyfloat list \<Rightarrow> pyfloat"
  wide_subtotals :: "data list \<Rightarrow> pyerr + cell \<times> cell \<times> cell \<times> cell"

text \<open>
  \<^verbatim>\<open>float(raw)\<close> inside \<^verbatim>\<open>try: ... except: continue\<close>: \<open>None\<close> stands for any
  exception (\<^verbatim>\<open>TypeError\<close> on \<^verbatim>\<open>None\<close>, a list or a dictionary, \<^verbatim>\<open>ValueError\<close> on a
  string that is not a number, \<^verbatim>\<open>OverflowError\<close> on an integer beyond the doubles).
\<close>

fun py_float :: "env \<Rightarrow> pyval \<Rightarrow> pyfloat option" where
  "py_float E (VBool b) = Some (Fin (if b then 1 else 0))"
| "py_float E (VInt i) = (case float_of_int i of Inl e \<Rightarrow> None | Inr x \<Rightarrow> Some x)"
| "py_float E (VFloat x) = Some x"
| "py_float E (VStr s) = float_of_str E s"
| "py_float E v = None"

text \<open>\<^verbatim>\<open>str(v)\<close> of a hashable value, as inserted by an f-string.\<close>

fun py_str :: "env \<Rightarrow> pyval \<Rightarrow> string" where
  "py_str E (VStr s) = s"
| "py_str E VNone = ''None''"
| "py_str E (VBool b) = (if b then ''True'' else ''False'')"
| "py_str E v = str_of_number E v"

text \<open>
  \<^verbatim>\<open>for a in v\<close>: a list yields its elements, a string its characters, a dictionary its
  keys; a number or \<^verbatim>\<open>None\<close> is not iterable.
\<close>

fun py_iter :: "pyval \<Rightarrow> pyerr + pyval list" where
  "py_iter (VList xs) = Inr xs"
| "py_iter (VStr s) = Inr (map (\<lambda>c. VStr [c]) s)"
| "py_iter (VDict kv) = Inr (map (\<lambda>(k, v). VStr k) kv)"
| "py_iter v = Inl TypeError"

section \<open>The line-item resolver: the loop body of \<^verbatim>\<open>get_products_info_for_row\<close>\<close>

definition default_subcat :: pyval where
  "default_subcat = VStr (''Sin l'' @ [CHR 0xC3, CHR 0xAD] @ ''nea de productos'')"

definition item_pid :: "(string \<times> pyval) list \<Rightarrow> pyval" where
  "item_pid item =
     (if dget item ''productId'' \<noteq> VNone then dget item ''productId'' else dget item ''id'')"

text \<open>
  \<^verbatim>\<open>pid is not None and pid in product_lookup\<close>, followed by \<^verbatim>\<open>product_lookup[pid]\<close>:
  \<open>Inr (Some info)\<close> is Branch A, \<open>Inr None\<close> is Branch B, and the membership test
  raises \<^verbatim>\<open>TypeError\<close> on an unhashable identifier.
\<close>

definition find_info :: "lookup \<Rightarrow> pyval \<Rightarrow> pyerr + info option" where
  "find_info product_lookup pid =
     (if pid = VNone then Inr None
      else if \<not> hashable pid then Inl TypeError
      else Inr (dict_get product_lookup pid))"

text \<open>
  The scan of the attribute list. The state is \<open>(ancho, alto, fondo, subcat)\<close>.
  \<^verbatim>\<open>a.get\<close> raises \<^verbatim>\<open>AttributeError\<close> when an attribute is not a dictionary.
\<close>

type_synonym scan = "pyfloat option \<times> pyfloat option \<times> pyfloat option \<times> pyval"

fun scan_attr :: "env \<Rightarrow> scan \<Rightarrow> pyval \<Rightarrow> pyerr + scan" where
  "scan_attr E (ancho, alto, fondo, subcat) (VDict a) =
     (let name = dget_default a ''name'' (VStr '''');
          raw = dget a ''value'';
          subcat' = (if name = VStr ''Product Line'' \<or> name = VStr ''3. Product Line''
                     then raw else subcat)
      in case py_float E raw of
           None \<Rightarrow> Inr (ancho, alto, fondo, subcat')
         | Some val \<Rightarrow>
             if name = VStr ''Ancho [cm]'' then Inr (Some val, alto, fondo, subcat')
             else if name = VStr ''Alto [cm]'' then Inr (ancho, Some val, fondo, subcat')
             else if name = VStr ''Fondo [cm]'' then Inr (ancho, alto, Some val, subcat')
             else Inr (ancho, alto, fondo, subcat'))"
| "scan_attr E st v = Inl AttributeError"

fun scan_attrs :: "env \<Rightarrow> scan \<Rightarrow> pyval list \<Rightarrow> pyerr + scan" where
  "scan_attrs E st [] = Inr st"
| "scan_attrs E st (a # as) =
     (case scan_attr E st a of Inl e \<Rightarrow> Inl e | Inr st' \<Rightarrow> scan_attrs E st' as)"

text \<open>
  \<^verbatim>\<open>volume\<close>: \<^verbatim>\<open>None\<close> unless none of the three dimensions is \<^verbatim>\<open>None\<close>; otherwise
  \<^verbatim>\<open>round((ancho * alto * fondo) / 1_000_000, 5)\<close> on three floats: two products and a
  quotient, each rounded to a double, and then the rounding to 5 decimals.
\<close>

fun volume_of :: "pyfloat option \<Rightarrow> pyfloat option \<Rightarrow> pyfloat option \<Rightarrow> pyval" where
  "volume_of (Some ancho) (Some alto) (Some fondo) =
     VFloat (round_float 5 (fdiv_by (fmul (fmul ancho alto) fondo) 1000000))"
| "volume_of a b c = VNone"

text \<open>The shortage fields \<open>(insuf, falta, extra)\<close>.\<close>

definition shortage :: "pyval \<Rightarrow> pyval \<Rightarrow> pyval \<Rightarrow> pyerr + (pyval \<times> pyval \<times> pyval)" where
  "shortage sku stock units =
     (if \<not> truthy sku \<or> \<not> is_number stock then Inr (VStr '''', VInt 0, VInt 0)
      else case py_ge stock units of
             Inl e \<Rightarrow> Inl e
           | Inr ge \<Rightarrow>
               (case py_sub stock units of
                  Inl e \<Rightarrow> Inl e
                | Inr diff \<Rightarrow>
                    if ge then Inr (VStr '''', VInt 0, diff)
                    else Inr (VStr ''STOCK INSUFICIENTE'', py_abs diff, VInt 0)))"

text \<open>
  \<^verbatim>\<open>round(net_w * units, 3) if net_w and units else None\<close>. When an operand is truthy
  but not a number, Python raises \<^verbatim>\<open>TypeError\<close> either at the product or, where the
  product is a repeated string or list, at \<^verbatim>\<open>round\<close>.
\<close>

definition total_weight :: "pyval \<Rightarrow> pyval \<Rightarrow> pyerr + pyval" where
  "total_weight net_w units =
     (if truthy net_w \<and> truthy units
      then (case py_mul net_w units of
              Inl e \<Rightarrow> Inl e
            | Inr m \<Rightarrow> (case py_round 3 m of None \<Rightarrow> Inl TypeError | Some r \<Rightarrow> Inr r))
      else Inr VNone)"

text \<open>
  The rest of the loop body once \<open>product_name\<close>, \<open>sku\<close>, \<open>stock\<close>, \<open>net_w\<close>, the
  dimensions and \<open>subcat\<close> are known: the group key and the \<^verbatim>\<open>data\<close> dictionary.
\<close>

definition make_data ::
  "pyval \<Rightarrow> pyval \<Rightarrow> pyval \<Rightarrow> pyval \<Rightarrow> pyval \<Rightarrow> scan \<Rightarrow> pyerr + (pyval \<times> data)" where
  "make_data units product_name sku stock net_w st =
     (case st of (ancho, alto, fondo, subcat) \<Rightarrow>
        (case shortage sku stock units of
           Inl e \<Rightarrow> Inl e
         | Inr (insuf, falta, extra) \<Rightarrow>
             (case total_weight net_w units of
                Inl e \<Rightarrow> Inl e
              | Inr tw \<Rightarrow>
                  Inr (subcat,
                       [(Product, product_name),
                        (SKU, sku),
                        (Units, units),
                        (Gross_Weight, net_w),
                        (Total_Weight, tw),
                        (Volume, volume_of ancho alto fondo),
                        (Stock_Real, stock),
                        (Insuficiente, insuf),
                        (Falta, falta),
                        (Extra, extra)]))))"

text \<open>Branch A: the identifier is in the catalog index.\<close>

definition branch_a :: "env \<Rightarrow> info \<Rightarrow> pyval \<Rightarrow> pyerr + (pyval \<times> data)" where
  "branch_a E info units =
     (case py_iter (py_or (info_Attributes info) (VList [])) of
        Inl e \<Rightarrow> Inl e
      | Inr attrs \<Rightarrow>
          (case scan_attrs E (None, None, None, default_subcat) attrs of
             Inl e \<Rightarrow> Inl e
           | Inr st \<Rightarrow>
               make_data units (info_Product info) (info_SKU info) (info_Stock_Real info)
                 (info_Weight info) st))"

text \<open>Branch B: no identifier, or one the catalog index does not have.\<close>

definition branch_b :: "(string \<times> pyval) list \<Rightarrow> pyval \<Rightarrow> pyerr + (pyval \<times> data)" where
  "branch_b item units =
     make_data units
       (py_or (dget item ''name'') (VStr ''''))
       (py_or (dget item ''sku'') (VStr ''''))
       (VStr '''')
       (py_or (dget item ''weight'') (VFloat 0))
       (None, None, None, default_subcat)"

fun resolve_item :: "env \<Rightarrow> lookup \<Rightarrow> pyval \<Rightarrow> pyerr + (pyval \<times> data)" where
  "resolve_item E product_lookup (VDict item) =
     (let pid = item_pid item;
          units = dget_default item ''units'' (VInt 0)
      in case find_info product_lookup pid of
           Inl e \<Rightarrow> Inl e
         | Inr (Some info) \<Rightarrow> branch_a E info units
         | Inr None \<Rightarrow> branch_b item units)"
| "resolve_item E product_lookup v = Inl AttributeError"

section \<open>Grouping, sorting and the subtotal rows\<close>

text \<open>
  \<^verbatim>\<open>grouped\<close> maps a subcategory to the list of its \<^verbatim>\<open>data\<close> dictionaries, in order of
  first insertion. \<^verbatim>\<open>grouped.setdefault(subcat, []).append(data)\<close> raises
  \<^verbatim>\<open>TypeError\<close> when \<open>subcat\<close> (the raw value of a product-line attribute) is unhashable.
\<close>

type_synonym grouped = "(pyval \<times> data list) list"

definition setdefault_append :: "grouped \<Rightarrow> pyval \<Rightarrow> data \<Rightarrow> grouped" where
  "setdefault_append g subcat d =
     (case dict_get g subcat of
        None \<Rightarrow> g @ [(subcat, [d])]
      | Some ds \<Rightarrow> dict_set g subcat (ds @ [d]))"

fun group_items :: "env \<Rightarrow> lookup \<Rightarrow> grouped \<Rightarrow> pyval list \<Rightarrow> pyerr + grouped" where
  "group_items E product_lookup g [] = Inr g"
| "group_items E product_lookup g (item # items) =
     (case resolve_item E product_lookup item of
        Inl e \<Rightarrow> Inl e
      | Inr (subcat, d) \<Rightarrow>
          if hashable subcat
          then group_items E product_lookup (setdefault_append g subcat d) items
          else Inl TypeError)"

text \<open>
  \<^verbatim>\<open>sorted(rows, key=lambda x: x.get("SKU") or "")\<close>. The sort is stable. Strings are
  ordered by code point, which on UTF-8 text is the lexicographic order of the bytes;
  numbers by value. A list of fewer than two rows is never compared. Comparing a string
  with a number, or a dictionary with anything, raises \<^verbatim>\<open>TypeError\<close>. Two cases are not
  followed, and are treated like a dictionary: a SKU that is a list (Python compares two
  lists element by element) and a SKU that is a NaN (every comparison with it is false,
  and the order that \<^verbatim>\<open>sorted\<close> returns then depends on its algorithm).
\<close>

definition sku_key :: "data \<Rightarrow> pyval" where
  "sku_key x = py_or (field x SKU) (VStr '''')"

fun is_str :: "pyval \<Rightarrow> bool" where
  "is_str (VStr s) = True"
| "is_str v = False"

fun str_val :: "pyval \<Rightarrow> string" where
  "str_val (VStr s) = s"
| "str_val v = []"

text \<open>The place of a number that is not a NaN in the order of the numbers.\<close>

fun float_rank :: "pyfloat \<Rightarrow> int \<times> rat" where
  "float_rank (Fin r) = (0, r)"
| "float_rank PInf = (1, 0)"
| "float_rank NInf = (- 1, 0)"
| "float_rank FNaN = (2, 0)"

definition num_rank :: "pyval \<Rightarrow> int \<times> rat" where
  "num_rank v = (case num_of v of None \<Rightarrow> (2, 0) | Some x \<Rightarrow> float_rank x)"

definition sorted_by_sku :: "data list \<Rightarrow> pyerr + data list" where
  "sorted_by_sku rows =
     (if length rows \<le> 1 then Inr rows
      else if list_all (\<lambda>x. is_str (sku_key x)) rows
      then Inr (sort_key (\<lambda>x. str_val (sku_key x)) rows)
      else if list_all (\<lambda>x. is_number (sku_key x) \<and> sku_key x \<noteq> VFloat FNaN) rows
      then Inr (sort_key (\<lambda>x. num_rank (sku_key x)) rows)
      else Inl TypeError)"

fun sort_groups :: "grouped \<Rightarrow> pyerr + grouped" where
  "sort_groups [] = Inr []"
| "sort_groups ((subcat, rows) # g) =
     (case sorted_by_sku rows of
        Inl e \<Rightarrow> Inl e
      | Inr rows' \<Rightarrow>
          (case sort_groups g of Inl e \<Rightarrow> Inl e | Inr g' \<Rightarrow> Inr ((subcat, rows') # g')))"

subsection \<open>Columns of numbers and their sums\<close>

definition all_columns :: "col list" where
  "all_columns =
     [SKU, Product, Units, Subtotal_Units,
      Gross_Weight, Total_Weight, Subtotal_Total_Weight,
      Volume, Subtotal_Volume,
      Stock_Real, Insuficiente, Falta, Subtotal_Falta, Extra]"

text \<open>
  \<^verbatim>\<open>pd.to_numeric(column, errors="coerce")\<close> on one value of \<^verbatim>\<open>tmp = pd.DataFrame(prods)\<close>:
  a number stays, a string is parsed, anything else becomes a NaN.
\<close>

fun to_numeric :: "env \<Rightarrow> pyval \<Rightarrow> number" where
  "to_numeric E (VBool b) = NInt (if b then 1 else 0)"
| "to_numeric E (VInt i) = NInt i"
| "to_numeric E (VFloat x) = NFloat x"
| "to_numeric E (VStr s) = numeric_of_str E s"
| "to_numeric E v = NFloat FNaN"

text \<open>\<^verbatim>\<open>tmp[c]\<close> after the conversion, for the rows \<open>prods\<close> of one group.\<close>

definition numeric_column :: "env \<Rightarrow> data list \<Rightarrow> col \<Rightarrow> number list" where
  "numeric_column E prods c = map (\<lambda>d. to_numeric E (field d c)) prods"

text \<open>
  The column is an \<^verbatim>\<open>int64\<close> column when every value is an integer and a \<^verbatim>\<open>float64\<close>
  column otherwise, in which each integer is the nearest double.
\<close>

fun is_int :: "number \<Rightarrow> bool" where
  "is_int (NInt i) = True"
| "is_int (NFloat x) = False"

fun int_val :: "number \<Rightarrow> int" where
  "int_val (NInt i) = i"
| "int_val (NFloat x) = 0"

fun float_val :: "number \<Rightarrow> pyfloat" where
  "float_val (NInt i) = round_double (of_int i)"
| "float_val (NFloat x) = x"

definition int64 :: "int \<Rightarrow> bool" where
  "int64 i = (- (2 ^ 63) \<le> i \<and> i < 2 ^ 63)"

text \<open>The sum of an \<^verbatim>\<open>int64\<close> column wraps around.\<close>

definition wrap64 :: "int \<Rightarrow> int" where
  "wrap64 s = (s + 2 ^ 63) mod 2 ^ 64 - 2 ^ 63"

text \<open>
  The sum of an array of \<^verbatim>\<open>float64\<close> without NaN. Adding a zero changes nothing, so
  the sum is the one number that is not zero, or the rounded sum of the two that are not,
  in whatever order numpy adds.
\<close>

definition float64_sum :: "env \<Rightarrow> pyfloat list \<Rightarrow> pyfloat" where
  "float64_sum E xs =
     (case filter (\<lambda>x. x \<noteq> Fin 0) xs of
        [] \<Rightarrow> Fin 0
      | [x] \<Rightarrow> x
      | [x, y] \<Rightarrow> fadd x y
      | _ \<Rightarrow> float_sum E xs)"

text \<open>
  \<^verbatim>\<open>series.sum(min_count=1)\<close>: on a \<^verbatim>\<open>float64\<close> column the NaN are replaced by 0
  before the sum, and the result is a NaN when every value is one.
\<close>

definition sum_min_count :: "env \<Rightarrow> number list \<Rightarrow> number" where
  "sum_min_count E xs =
     (if list_all is_int xs then NInt (wrap64 (sum_list (map int_val xs)))
      else let fs = map float_val xs
           in if list_all (\<lambda>x. x = FNaN) fs then NFloat FNaN
              else NFloat (float64_sum E (map (\<lambda>x. if x = FNaN then Fin 0 else x) fs)))"

text \<open>
  \<^verbatim>\<open>round(series.sum(min_count=1) or 0, d)\<close>: a zero sum is replaced by the integer 0;
  a NaN is truthy, so it passes \<^verbatim>\<open>or\<close>, and \<^verbatim>\<open>round\<close> leaves it; \<^verbatim>\<open>round\<close> leaves an
  integer as it is, and rounds a \<^verbatim>\<open>float64\<close> as numpy does.
\<close>

definition rounded_sum :: "nat \<Rightarrow> number \<Rightarrow> cell" where
  "rounded_sum d s =
     (case s of
        NInt i \<Rightarrow> Obj (VInt i)
      | NFloat x \<Rightarrow> if x = Fin 0 then Obj (VInt 0) else Obj (VFloat (np_round d x)))"

text \<open>
  A group in which a cell holds an integer outside the 64-bit range, either in a
  \<^verbatim>\<open>data\<close> dictionary or after the conversion of one of the four numeric columns.
\<close>

fun wide :: "pyval \<Rightarrow> bool" where
  "wide (VInt i) = (\<not> int64 i)"
| "wide v = False"

definition numeric_columns :: "col list" where
  "numeric_columns = [Units, Total_Weight, Volume, Falta]"

definition wide_group :: "env \<Rightarrow> data list \<Rightarrow> bool" where
  "wide_group E prods =
     list_ex (\<lambda>d. list_ex (\<lambda>kv. wide (snd kv)) d
                 \<or> list_ex (\<lambda>c. case to_numeric E (field d c) of
                                   NInt i \<Rightarrow> \<not> int64 i | NFloat x \<Rightarrow> False) numeric_columns)
       prods"

text \<open>
  The four subtotals of a group, in the order \<^verbatim>\<open>Subtotal > Units\<close>,
  \<^verbatim>\<open>Subtotal > Total Weight (kg)\<close>, \<^verbatim>\<open>Subtotal > Volume\<close>, \<^verbatim>\<open>Subtotal > Falta\<close>.
\<close>

definition subtotals :: "env \<Rightarrow> data list \<Rightarrow> pyerr + cell \<times> cell \<times> cell \<times> cell" where
  "subtotals E prods =
     (if wide_group E prods then wide_subtotals E prods
      else Inr (rounded_sum 1 (sum_min_count E (numeric_column E prods Units)),
                rounded_sum 2 (sum_min_count E (numeric_column E prods Total_Weight)),
                rounded_sum 5 (sum_min_count E (numeric_column E prods Volume)),
                rounded_sum 0 (sum_min_count E (numeric_column E prods Falta))))"

subsection \<open>The rows of one group\<close>

definition em_dashes :: string where
  "em_dashes = [CHR 0xE2, CHR 0x80, CHR 0x94, CHR 0xE2, CHR 0x80, CHR 0x94,
                CHR 0xE2, CHR 0x80, CHR 0x94]"

definition blank :: cell where
  "blank = Obj (VStr '''')"

fun row_update :: "col \<Rightarrow> cell \<Rightarrow> row \<Rightarrow> row" where
  "row_update k v [] = [(k, v)]"
| "row_update k v ((k', v') # r) =
     (if k' = k then (k, v) # r else (k', v') # row_update k v r)"

definition header_row :: "env \<Rightarrow> pyval \<Rightarrow> row" where
  "header_row E subcat =
     row_update Product
       (Obj (VStr (em_dashes @ '' '' @ py_str E subcat @ '' '' @ em_dashes)))
       (map (\<lambda>k. (k, blank)) all_columns)"

definition data_row :: "data \<Rightarrow> row" where
  "data_row d = map (\<lambda>(k, v). (k, Obj v)) d"

definition subtotal_row :: "env \<Rightarrow> pyval \<Rightarrow> cell \<times> cell \<times> cell \<times> cell \<Rightarrow> row" where
  "subtotal_row E subcat totals =
     (case totals of (units, weight, volume, falta) \<Rightarrow>
        [(SKU, blank),
         (Product, Obj (VStr (replicate 25 CHR '' '' @ ''Subtotal '' @ py_str E subcat))),
         (Units, blank),
         (Subtotal_Units, units),
         (Gross_Weight, blank),
         (Total_Weight, blank),
         (Subtotal_Total_Weight, weight),
         (Volume, blank),
         (Subtotal_Volume, volume),
         (Stock_Real, blank),
         (Insuficiente, blank),
         (Falta, blank),
         (Subtotal_Falta, falta),
         (Extra, blank)])"

text \<open>One turn of the loop that constructs \<^verbatim>\<open>output\<close>: the rows appended for one group.\<close>

definition group_rows :: "env \<Rightarrow> pyval \<times> data list \<Rightarrow> pyerr + row list" where
  "group_rows E g =
     (case g of (subcat, prods) \<Rightarrow>
        (case subtotals E prods of
           Inl e \<Rightarrow> Inl e
         | Inr totals \<Rightarrow>
             Inr (header_row E subcat # map data_row prods @ [subtotal_row E subcat totals])))"

fun construct_output :: "env \<Rightarrow> grouped \<Rightarrow> pyerr + row list" where
  "construct_output E [] = Inr []"
| "construct_output E (g # gs) =
     (case group_rows E g of
        Inl e \<Rightarrow> Inl e
      | Inr rows \<Rightarrow>
          (case construct_output E gs of Inl e \<Rightarrow> Inl e | Inr output \<Rightarrow> Inr (rows @ output)))"

section \<open>The report table\<close>

text \<open>
  \<^verbatim>\<open>pd.DataFrame(output)\<close> on a list of dictionaries: the columns are the keys in order
  of first appearance, and a row that lacks a key has a missing value there.
\<close>

record dataframe =
  df_columns :: "col list"
  df_rows :: "row list"

definition first_seen :: "'a list \<Rightarrow> 'a list" where
  "first_seen xs = foldl (\<lambda>acc k. if k \<in> set acc then acc else acc @ [k]) [] xs"

definition cell_at :: "row \<Rightarrow> col \<Rightarrow> cell" where
  "cell_at r c = (case map_of r c of None \<Rightarrow> NaN | Some v \<Rightarrow> v)"

definition reindex :: "col list \<Rightarrow> row \<Rightarrow> row" where
  "reindex cols r = map (\<lambda>c. (c, cell_at r c)) cols"

definition DataFrame :: "row list \<Rightarrow> dataframe" where
  "DataFrame output =
     (let cols = first_seen (concat (map (map fst) output))
      in \<lparr> df_columns = cols, df_rows = map (reindex cols) output \<rparr>)"

text \<open>
  \<^verbatim>\<open>df["Product"].str.contains("Subtotal", na=False)\<close>: true on a string that has
  \<^verbatim>\<open>Subtotal\<close> as a substring, false on anything that is not a string.
\<close>

fun contains_str :: "string \<Rightarrow> string \<Rightarrow> bool" where
  "contains_str pat [] = (pat = [])"
| "contains_str pat (c # cs) = (take (length pat) (c # cs) = pat \<or> contains_str pat cs)"

definition subtotal_mask :: "row \<Rightarrow> bool" where
  "subtotal_mask r =
     (case cell_at r Product of Obj (VStr s) \<Rightarrow> contains_str ''Subtotal'' s | _ \<Rightarrow> False)"

text \<open>\<^verbatim>\<open>isna\<close>: a missing value, \<^verbatim>\<open>None\<close> or a float that is a NaN.\<close>

fun isna :: "cell \<Rightarrow> bool" where
  "isna NaN = True"
| "isna (Obj VNone) = True"
| "isna (Obj (VFloat FNaN)) = True"
| "isna c = False"

definition subtotal_columns :: "col list" where
  "subtotal_columns = [Subtotal_Units, Subtotal_Total_Weight, Subtotal_Volume, Subtotal_Falta]"

text \<open>
  \<^verbatim>\<open>df.loc[mask, col] = df.loc[mask, col].fillna(0)\<close> for the four subtotal columns.
\<close>

definition fillna_row :: "row \<Rightarrow> row" where
  "fillna_row r =
     (if subtotal_mask r
      then map (\<lambda>(c, v). if c \<in> set subtotal_columns \<and> isna v
                           then (c, Obj (VInt 0)) else (c, v)) r
      else r)"

definition fill_subtotals :: "dataframe \<Rightarrow> dataframe" where
  "fill_subtotals df = df \<lparr> df_rows := map fillna_row (df_rows df) \<rparr>"

text \<open>\<^verbatim>\<open>df[cols]\<close>: \<^verbatim>\<open>KeyError\<close> when a column is not in the table.\<close>

definition select_columns :: "col list \<Rightarrow> dataframe \<Rightarrow> pyerr + dataframe" where
  "select_columns cols df =
     (if set cols \<subseteq> set (df_columns df)
      then Inr \<lparr> df_columns = cols, df_rows = map (reindex cols) (df_rows df) \<rparr>
      else Inl KeyError)"

text \<open>
  \<^verbatim>\<open>items = ... or []\<close> and the check that follows, on the cell
  \<^verbatim>\<open>df_docs.at[row_idx, "products"]\<close>. A document without the field, in a table where
  another document has it, has a missing value there, which is truthy and not a list.
\<close>

fun items_of :: "cell \<Rightarrow> pyerr + pyval list" where
  "items_of NaN = Inl TypeError"
| "items_of (Obj v) =
     (case py_or v (VList []) of VList items \<Rightarrow> Inr items | _ \<Rightarrow> Inl TypeError)"

text \<open>
  The body of \<^verbatim>\<open>get_products_info_for_row\<close> from line 81 on, as a function of the
  \<^verbatim>\<open>products\<close> cell of the document row and of the catalog index.
\<close>

definition get_products_info_for_row :: "env \<Rightarrow> cell \<Rightarrow> lookup \<Rightarrow> pyerr + dataframe" where
  "get_products_info_for_row E products product_lookup =
     (case items_of products of
        Inl e \<Rightarrow> Inl e
      | Inr items \<Rightarrow>
          (case group_items E product_lookup [] items of
             Inl e \<Rightarrow> Inl e
           | Inr grouped \<Rightarrow>
               (case sort_groups grouped of
                  Inl e \<Rightarrow> Inl e
                | Inr grouped' \<Rightarrow>
                    (case construct_output E grouped' of
                       Inl e \<Rightarrow> Inl e
                     | Inr output \<Rightarrow>
                         if output = []
                         then Inr \<lparr> df_columns = all_columns, df_rows = [] \<rparr>
                         else select_columns all_columns
                                (fill_subtotals (DataFrame output))))))"

text \<open>
  The table of documents, given by its columns (a name and the cells of the rows
  \<open>0, 1, ...\<close>), and \<^verbatim>\<open>df_docs.at[row_idx, "products"]\<close> on it: \<^verbatim>\<open>KeyError\<close> when the
  table has no such column (no document has the field) or no such row.
\<close>

type_synonym documents = "(string \<times> cell list) list"

definition df_at :: "documents \<Rightarrow> nat \<Rightarrow> string \<Rightarrow> pyerr + cell" where
  "df_at df_docs row_idx c =
     (case map_of df_docs c of
        None \<Rightarrow> Inl KeyError
      | Some cells \<Rightarrow> if row_idx < length cells then Inr (cells ! row_idx) else Inl KeyError)"

text \<open>\<^verbatim>\<open>get_products_info_for_row(row_idx, df_docs, product_lookup)\<close>, as it is called.\<close>

definition get_products_info_for_row_idx ::
  "env \<Rightarrow> nat \<Rightarrow> documents \<Rightarrow> lookup \<Rightarrow> pyerr + dataframe" where
  "get_products_info_for_row_idx E row_idx df_docs product_lookup =
     (case df_at df_docs row_idx ''products'' of
        Inl e \<Rightarrow> Inl e
      | Inr products \<Rightarrow> get_products_info_for_row E products product_lookup)"

section \<open>The pallet summary\<close>

text \<open>
  Lines 316 to 325 of the script, as a function of the two column sums
  \<^verbatim>\<open>df_res[...].sum(min_count=1)\<close>. Each is a \<^verbatim>\<open>float64\<close> (the column has a NaN in
  every header row), a NaN when the column has no number. \<^verbatim>\<open>x or 0\<close> keeps a NaN,
  which is truthy; the quotient of a NaN is a NaN, which \<^verbatim>\<open>pd.isna\<close> then replaces
  by 0. \<^verbatim>\<open>round\<close> is numpy's.
\<close>

definition pallets_by :: "rat \<Rightarrow> pyfloat \<Rightarrow> pyfloat" where
  "pallets_by capacity total_sum =
     (if total_sum = Fin 0 then Fin 0
      else let p = np_round 3 (fdiv_by total_sum capacity)
           in if p = FNaN then Fin 0 else p)"

definition pw :: "pyfloat \<Rightarrow> pyfloat" where
  "pw weight_sum = pallets_by 1300 weight_sum"

definition pv :: "pyfloat \<Rightarrow> pyfloat" where
  "pv volume_sum = pallets_by (literal (1728 / 1000)) volume_sum"

text \<open>\<^verbatim>\<open>max(a, b)\<close>: the first argument unless the second is greater.\<close>

definition py_max :: "pyfloat \<Rightarrow> pyfloat \<Rightarrow> pyfloat" where
  "py_max a b = (if flt a b then b else a)"

text \<open>
  \<^verbatim>\<open>max(1, int(np.ceil(max(pw, pv))))\<close>: \<^verbatim>\<open>int\<close> raises \<^verbatim>\<open>OverflowError\<close> on an
  infinity (and \<^verbatim>\<open>ValueError\<close> on a NaN).
\<close>

definition pallets :: "pyfloat \<Rightarrow> pyfloat \<Rightarrow> pyerr + int" where
  "pallets weight_sum volume_sum =
     (case py_max (pw weight_sum) (pv volume_sum) of
        Fin m \<Rightarrow> Inr (max 1 \<lceil>m\<rceil>)
      | FNaN \<Rightarrow> Inl ValueError
      | _ \<Rightarrow> Inl OverflowError)"

section \<open>Notions used to state the properties\<close>

text \<open>
  The value a dimension attribute contributes, in the words of the specification: an
  attribute of the list counts for the dimension \<open>n\<close> when its name is \<open>n\<close> and its
  value parses as a number; \<open>dimension\<close> is the value of the last one that counts, and
  \<open>None\<close> when none does.
\<close>

fun attr_value :: "env \<Rightarrow> string \<Rightarrow> pyval \<Rightarrow> pyfloat option" where
  "attr_value E n (VDict a) =
     (if dget_default a ''name'' (VStr '''') = VStr n then py_float E (dget a ''value'')
      else None)"
| "attr_value E n v = None"

definition dimension :: "env \<Rightarrow> string \<Rightarrow> pyval list \<Rightarrow> pyfloat option" where
  "dimension E n attrs =
     (case List.map_filter (attr_value E n) attrs of [] \<Rightarrow> None | vs \<Rightarrow> Some (last vs))"

definition present :: "env \<Rightarrow> string \<Rightarrow> pyval list \<Rightarrow> bool" where
  "present E n attrs = list_ex (\<lambda>a. attr_value E n a \<noteq> None) attrs"

text \<open>The attribute list a catalog entry is scanned with: \<^verbatim>\<open>info.get("Attributes") or []\<close>.\<close>

definition attributes_of :: "info \<Rightarrow> pyval list" where
  "attributes_of info =
     (case py_iter (py_or (info_Attributes info) (VList [])) of Inl e \<Rightarrow> [] | Inr xs \<Rightarrow> xs)"

text \<open>\<open>a < b\<close> on two numbers, by exact value; false when one of them is a NaN.\<close>

definition py_lt :: "pyval \<Rightarrow> pyval \<Rightarrow> bool" where
  "py_lt a b = (case (num_of a, num_of b) of (Some x, Some y) \<Rightarrow> flt x y | _ \<Rightarrow> False)"

definition is_nan :: "pyval \<Rightarrow> bool" where
  "is_nan v = (v = VFloat FNaN)"

text \<open>
  Two numbers whose difference and product Python computes without rounding an operand:
  both are integers (the operation is exact), or each is a float or an integer that its
  conversion to a float leaves unchanged (every integer up to \<open>2\<^sup>5\<^sup>3\<close> in absolute value).
\<close>

definition unrounded :: "pyval \<Rightarrow> bool" where
  "unrounded v = (case num_of v of None \<Rightarrow> False | Some x \<Rightarrow> to_float v = Inr x)"

definition unrounded_operands :: "pyval \<Rightarrow> pyval \<Rightarrow> bool" where
  "unrounded_operands a b =
     (int_of a \<noteq> None \<and> int_of b \<noteq> None \<or> unrounded a \<and> unrounded b)"

text \<open>
  What the three table operations at the end of \<^verbatim>\<open>get_products_info_for_row\<close> make of
  one dictionary of \<^verbatim>\<open>output\<close>, when the table has the fourteen columns.
\<close>

definition final_row :: "row \<Rightarrow> row" where
  "final_row r = reindex all_columns (fillna_row (reindex all_columns r))"

text \<open>A subtotal cell after \<^verbatim>\<open>fillna(0)\<close>.\<close>

definition filled :: "cell \<Rightarrow> cell" where
  "filled c = (if isna c then Obj (VInt 0) else c)"

text \<open>The index without the entry stored under \<^verbatim>\<open>None\<close>.\<close>

definition without_None :: "lookup \<Rightarrow> lookup" where
  "without_None product_lookup = filter (\<lambda>kv. fst kv \<noteq> VNone) product_lookup"

text \<open>\<^verbatim>\<open>isinstance(v, list)\<close>.\<close>

fun is_list :: "pyval \<Rightarrow> bool" where
  "is_list (VList xs) = True"
| "is_list v = False"

text \<open>
  Input of the shape the specification gives to the two collaborator sequences, with
  integers in the 32-bit range. An order line is a dictionary whose units are a number
  (or absent), whose inline name and SKU are strings (or absent), whose inline weight is
  a number (or absent) and whose identifier is hashable. A catalog entry has a string
  or no name, a string or no SKU, a number or no stock, a number or no weight, and as
  attributes nothing or a list of dictionaries with hashable values.
\<close>

fun plain_number :: "pyval \<Rightarrow> bool" where
  "plain_number (VBool b) = True"
| "plain_number (VInt i) = (- (2 ^ 31) \<le> i \<and> i < 2 ^ 31)"
| "plain_number (VFloat x) = True"
| "plain_number v = False"

definition opt_number :: "pyval \<Rightarrow> bool" where
  "opt_number v = (v = VNone \<or> plain_number v)"

definition opt_str :: "pyval \<Rightarrow> bool" where
  "opt_str v = (v = VNone \<or> is_str v)"

fun well_formed_attr :: "pyval \<Rightarrow> bool" where
  "well_formed_attr (VDict a) = hashable (dget a ''value'')"
| "well_formed_attr v = False"

fun well_formed_attrs :: "pyval \<Rightarrow> bool" where
  "well_formed_attrs VNone = True"
| "well_formed_attrs (VList as) = list_all well_formed_attr as"
| "well_formed_attrs v = False"

definition well_formed_info :: "info \<Rightarrow> bool" where
  "well_formed_info info =
     (opt_str (info_Product info) \<and> opt_str (info_SKU info)
      \<and> opt_number (info_Stock_Real info) \<and> opt_number (info_Weight info)
      \<and> well_formed_attrs (info_Attributes info))"

definition well_formed_lookup :: "lookup \<Rightarrow> bool" where
  "well_formed_lookup product_lookup = list_all (\<lambda>kv. well_formed_info (snd kv)) product_lookup"

fun well_formed_item :: "pyval \<Rightarrow> bool" where
  "well_formed_item (VDict item) =
     (plain_number (dget_default item ''units'' (VInt 0))
      \<and> opt_str (dget item ''name'') \<and> opt_str (dget item ''sku'')
      \<and> opt_number (dget item ''weight'') \<and> hashable (item_pid item))"
| "well_formed_item v = False"

text \<open>
  A resolved line that can be sorted and summed: its sort key is a string, no cell
  holds an integer outside the 64-bit range, and no numeric column holds a string.
\<close>

definition tame :: "data \<Rightarrow> bool" where
  "tame d =
     (is_str (sku_key d) \<and> list_all (\<lambda>kv. \<not> wide (snd kv)) d
      \<and> list_all (\<lambda>c. \<not> is_str (field d c)) numeric_columns)"

definition tame_groups :: "grouped \<Rightarrow> bool" where
  "tame_groups g = list_all (\<lambda>kv. list_all tame (snd kv)) g"

text \<open>The \<^verbatim>\<open>data\<close> dictionaries held by the groups.\<close>

definition lines_of :: "grouped \<Rightarrow> data set" where
  "lines_of g = (\<Union>kv \<in> set g. set (snd kv))"

subsection \<open>An environment and a catalog for the examples\<close>

text \<open>
  In the examples a string is a number when it is a non-empty run of decimal digits,
  which \<^verbatim>\<open>float\<close> reads as a float and \<^verbatim>\<open>pd.to_numeric\<close> as an integer. No example
  prints a number, sums three floats or holds an integer outside the 64-bit range.
\<close>

definition digit_of :: "char \<Rightarrow> nat option" where
  "digit_of c =
     (let n = (of_char c :: nat) in if 48 \<le> n \<and> n \<le> 57 then Some (n - 48) else None)"

fun digits_value :: "nat \<Rightarrow> string \<Rightarrow> nat option" where
  "digits_value acc [] = Some acc"
| "digits_value acc (c # cs) =
     (case digit_of c of None \<Rightarrow> None | Some d \<Rightarrow> digits_value (10 * acc + d) cs)"

definition parse_digits :: "string \<Rightarrow> nat option" where
  "parse_digits s = (if s = [] then None else digits_value 0 s)"

definition example_env :: env where
  "example_env =
     \<lparr> float_of_str = (\<lambda>s. map_option (\<lambda>n. round_double (of_nat n)) (parse_digits s)),
       numeric_of_str = (\<lambda>s. case parse_digits s of
                                None \<Rightarrow> NFloat FNaN | Some n \<Rightarrow> NInt (int n)),
       str_of_number = (\<lambda>v. ''#''),
       float_sum = foldl fadd (Fin 0),
       wide_subtotals = (\<lambda>prods. Inl OverflowError) \<rparr>"

text \<open>
  The example catalog has three products. A float is written as the double nearest to
  its decimal literal: \<open>round_double (3 / 10)\<close> is the float \<^verbatim>\<open>0.3\<close>. The third product
  has the stock \<^verbatim>\<open>NaN\<close>, which \<^verbatim>\<open>json.loads\<close> accepts.
\<close>

definition example_attributes :: "pyval list" where
  "example_attributes =
     [VDict [(''name'', VStr ''Ancho [cm]''), (''value'', VInt 40)],
      VDict [(''name'', VStr ''Alto [cm]''), (''value'', VStr ''30'')],
      VDict [(''name'', VStr ''Color''), (''value'', VStr ''n/a'')],
      VDict [(''name'', VStr ''Fondo [cm]''), (''value'', VFloat (Fin 25))]]"

definition example_product :: pyval where
  "example_product =
     VDict [(''id'', VStr ''p1''), (''name'', VStr ''Box''), (''sku'', VStr ''A-1''),
            (''stock'', VInt 3), (''weight'', VFloat (Fin (5 / 2))),
            (''attributes'', VList example_attributes)]"

definition cube_attributes :: "pyval list" where
  "cube_attributes =
     [VDict [(''name'', VStr ''Ancho [cm]''), (''value'', VInt 5)],
      VDict [(''name'', VStr ''Alto [cm]''), (''value'', VStr ''5'')],
      VDict [(''name'', VStr ''Alto [cm]''), (''value'', VList [])],
      VDict [(''name'', VStr ''Fondo [cm]''), (''value'', VFloat (Fin 5))]]"

definition cube_product :: pyval where
  "cube_product =
     VDict [(''id'', VStr ''p2''), (''name'', VStr ''Cube''), (''sku'', VStr ''B-2''),
            (''stock'', VFloat (round_double (3 / 10))),
            (''weight'', VFloat (round_double (15 / 10000))),
            (''attributes'', VList cube_attributes)]"

definition nan_product :: pyval where
  "nan_product =
     VDict [(''id'', VStr ''p3''), (''name'', VStr ''Rod''), (''sku'', VStr ''C-3''),
            (''stock'', VFloat FNaN)]"

definition example_lookup :: lookup where
  "example_lookup =
     (case build_product_lookup [example_product, cube_product, nan_product] of
        Inl e \<Rightarrow> [] | Inr l \<Rightarrow> l)"

text \<open>Three order lines: 5 boxes, 5 cubes, and a tenth of a cube.\<close>

definition example_item :: "(string \<times> pyval) list" where
  "example_item = [(''productId'', VStr ''p1''), (''units'', VInt 5)]"

definition cube_item :: "(string \<times> pyval) list" where
  "cube_item = [(''productId'', VStr ''p2''), (''units'', VInt 5)]"

definition tenth_item :: "(string \<times> pyval) list" where
  "tenth_item = [(''productId'', VStr ''p2''), (''units'', VFloat (round_double (1 / 10)))]"

text \<open>
  The lines the resolver returns for them (lemmas \<open>example_line\<close>, \<open>cube_line\<close> and
  \<open>tenth_line\<close> below).
\<close>

definition example_data :: data where
  "example_data =
     [(Product, VStr ''Box''), (SKU, VStr ''A-1''), (Units, VInt 5),
      (Gross_Weight, VFloat (Fin (5 / 2))), (Total_Weight, VFloat (Fin (25 / 2))),
      (Volume, VFloat (round_double (3 / 100))),
      (Stock_Real, VInt 3), (Insuficiente, VStr ''STOCK INSUFICIENTE''),
      (Falta, VInt 2), (Extra, VInt 0)]"

definition cube_data :: data where
  "cube_data =
     [(Product, VStr ''Cube''), (SKU, VStr ''B-2''), (Units, VInt 5),
      (Gross_Weight, VFloat (round_double (15 / 10000))),
      (Total_Weight, VFloat (round_double (7 / 1000))),
      (Volume, VFloat (round_double (13 / 100000))),
      (Stock_Real, VFloat (round_double (3 / 10))),
      (Insuficiente, VStr ''STOCK INSUFICIENTE''),
      (Falta, VFloat (round_double (47 / 10))), (Extra, VInt 0)]"

definition tenth_data :: data where
  "tenth_data =
     [(Product, VStr ''Cube''), (SKU, VStr ''B-2''), (Units, VFloat (round_double (1 / 10))),
      (Gross_Weight, VFloat (round_double (15 / 10000))),
      (Total_Weight, VFloat (Fin 0)),
      (Volume, VFloat (round_double (13 / 100000))),
      (Stock_Real, VFloat (round_double (3 / 10))),
      (Insuficiente, VStr ''''),
      (Falta, VInt 0), (Extra, VFloat (Fin (7205759403792793 / 2 ^ 55)))]"

section \<open>Properties\<close>

subsection \<open>Examples of the arithmetic\<close>

lemma example_line:
  "resolve_item example_env example_lookup (VDict example_item)
   = Inr (default_subcat, example_data)"
  by code_simp

lemma cube_line:
  "resolve_item example_env example_lookup (VDict cube_item)
   = Inr (default_subcat, cube_data)"
  by code_simp

lemma tenth_line:
  "resolve_item example_env example_lookup (VDict tenth_item)
   = Inr (default_subcat, tenth_data)"
  by code_simp

subsection \<open>Dictionaries keyed by Python values\<close>

lemma py_eq_refl [simp]: "py_eq a a"
  by (simp add: py_eq_def split: option.splits)

lemma py_eq_sym: "py_eq a b \<Longrightarrow> py_eq b a"
  by (auto simp: py_eq_def split: option.splits)

lemma py_eq_trans: "py_eq a b \<Longrightarrow> py_eq b c \<Longrightarrow> py_eq a c"
  by (auto simp: py_eq_def split: option.splits)

lemma py_eq_None [simp]: "py_eq VNone b \<longleftrightarrow> b = VNone" "py_eq b VNone \<longleftrightarrow> b = VNone"
  by (auto simp: py_eq_def split: option.splits)

lemma dict_get_set_same [simp]: "dict_get (dict_set d k v) k = Some v"
  by (induction d) (auto)

lemma dict_get_set_other:
  "\<not> py_eq k k' \<Longrightarrow> dict_get (dict_set d k v) k' = dict_get d k'"
proof (induction d)
  case Nil
  then show ?case by simp
next
  case (Cons e d)
  obtain k0 v0 where e: "e = (k0, v0)" by (cases e)
  show ?case
  proof (cases "py_eq k0 k")
    case True
    with Cons.prems have "\<not> py_eq k0 k'"
      using py_eq_trans py_eq_sym by blast
    with True e show ?thesis by simp
  next
    case False
    with Cons e show ?thesis by simp
  qed
qed

lemma loop_append:
  "build_product_lookup_loop acc (ps @ qs) =
     (case build_product_lookup_loop acc ps of
        Inl e \<Rightarrow> Inl e
      | Inr l \<Rightarrow> build_product_lookup_loop l qs)"
  by (induction acc ps rule: build_product_lookup_loop.induct) (simp_all add: Let_def)

lemma loop_keeps:
  "build_product_lookup_loop acc qs = Inr l \<Longrightarrow>
   \<forall>q. VDict q \<in> set qs \<longrightarrow> \<not> py_eq (product_pid q) k \<Longrightarrow>
   dict_get l k = dict_get acc k"
proof (induction acc qs rule: build_product_lookup_loop.induct)
  case (1 lookup)
  then show ?case by simp
next
  case (2 lookup p ps)
  then show ?case
    by (auto simp: Let_def dict_get_set_other split: if_splits)
qed simp_all

lemma dict_get_set_eq:
  "py_eq k k' \<Longrightarrow> dict_get (dict_set d k v) k' = Some v"
proof (induction d)
  case Nil
  then show ?case by simp
next
  case (Cons e d)
  obtain k0 v0 where e: "e = (k0, v0)" by (cases e)
  have "py_eq k0 k \<longleftrightarrow> py_eq k0 k'"
    using Cons.prems py_eq_trans py_eq_sym by blast
  with Cons e show ?case by simp
qed

lemma dict_get_set_some:
  "dict_get d k' \<noteq> None \<Longrightarrow> dict_get (dict_set d k v) k' \<noteq> None"
  by (cases "py_eq k k'") (simp_all add: dict_get_set_eq dict_get_set_other)

lemma loop_keeps_some:
  "build_product_lookup_loop acc qs = Inr l \<Longrightarrow> dict_get acc k \<noteq> None \<Longrightarrow> dict_get l k \<noteq> None"
proof (induction acc qs rule: build_product_lookup_loop.induct)
  case (2 lookup p ps)
  then show ?case
    by (simp add: Let_def dict_get_set_some split: if_splits)
qed simp_all

lemma loop_stores:
  "build_product_lookup_loop acc ps = Inr l \<Longrightarrow> VDict p \<in> set ps \<Longrightarrow>
   dict_get l (product_pid p) \<noteq> None"
proof (induction acc ps rule: build_product_lookup_loop.induct)
  case (2 lookup q ps)
  show ?case
  proof (cases "q = p")
    case True
    with 2(2) have "build_product_lookup_loop (dict_set lookup (product_pid p) (product_info p)) ps = Inr l"
      by (simp add: Let_def split: if_splits)
    then show ?thesis
      by (rule loop_keeps_some) simp
  next
    case False
    with 2 show ?thesis
      by (simp add: Let_def split: if_splits)
  qed
qed simp_all

lemma dict_get_without_None:
  "pid \<noteq> VNone \<Longrightarrow> dict_get (without_None l) pid = dict_get l pid"
  by (induction l) (auto simp: without_None_def)

lemma find_info_without_None:
  "find_info (without_None l) pid = find_info l pid"
  by (simp add: find_info_def dict_get_without_None)

lemma resolve_item_without_None:
  "resolve_item E (without_None l) item = resolve_item E l item"
  by (cases item) (simp_all add: find_info_without_None)

lemma group_items_without_None:
  "group_items E (without_None l) g items = group_items E l g items"
  by (induction items arbitrary: g)
     (simp_all add: resolve_item_without_None split: sum.splits prod.splits)

lemma report_without_None:
  "get_products_info_for_row E products (without_None l) = get_products_info_for_row E products l"
  by (simp add: get_products_info_for_row_def group_items_without_None split: sum.splits)

lemma product_pid_absent:
  "map_of p ''id'' = None \<Longrightarrow> map_of p ''productId'' = None \<Longrightarrow> product_pid p = VNone"
  by (simp add: product_pid_def dget_def dget_default_def py_or_def)

subsection \<open>The catalog index\<close>

text \<open>
  Claim C10. When several records of the product list resolve to the same identifier,
  the index maps that identifier to the entry of the last of them: if the list is
  \<open>ps @ VDict p # qs\<close>, the index is built without error, and no record of \<open>qs\<close> has
  an identifier equal (as a dictionary key) to that of \<open>p\<close>, then looking up the
  identifier of \<open>p\<close> gives the entry made from \<open>p\<close>, whatever \<open>ps\<close> stored there.
\<close>

theorem last_record_wins:
  assumes "build_product_lookup (ps @ VDict p # qs) = Inr l"
    and "\<forall>q. VDict q \<in> set qs \<longrightarrow> \<not> py_eq (product_pid q) (product_pid p)"
  shows "dict_get l (product_pid p) = Some (product_info p)"
proof -
  from assms(1) obtain l1 where l1: "build_product_lookup_loop [] ps = Inr l1"
    and r: "build_product_lookup_loop l1 (VDict p # qs) = Inr l"
    by (auto simp: build_product_lookup_def loop_append split: sum.splits)
  from r have h: "hashable (product_pid p)"
    and r': "build_product_lookup_loop (dict_set l1 (product_pid p) (product_info p)) qs = Inr l"
    by (auto simp: Let_def split: if_splits)
  from loop_keeps[OF r' assms(2)] show ?thesis by simp
qed

theorem last_record_wins_witness:
  "build_product_lookup
     ([VDict [(''id'', VStr ''a''), (''name'', VStr ''first'')]]
      @ VDict [(''id'', VStr ''a''), (''name'', VStr ''second'')]
      # [VDict [(''productId'', VStr ''b''), (''name'', VStr ''other'')]])
   = Inr [(VStr ''a'', product_info [(''id'', VStr ''a''), (''name'', VStr ''second'')]),
          (VStr ''b'', product_info [(''productId'', VStr ''b''), (''name'', VStr ''other'')])]
   \<and> dict_get
         [(VStr ''a'', product_info [(''id'', VStr ''a''), (''name'', VStr ''second'')]),
          (VStr ''b'', product_info [(''productId'', VStr ''b''), (''name'', VStr ''other'')])]
         (product_pid [(''id'', VStr ''a''), (''name'', VStr ''second'')])
       = Some (product_info [(''id'', VStr ''a''), (''name'', VStr ''second'')])"
proof -
  have run: "build_product_lookup
     ([VDict [(''id'', VStr ''a''), (''name'', VStr ''first'')]]
      @ VDict [(''id'', VStr ''a''), (''name'', VStr ''second'')]
      # [VDict [(''productId'', VStr ''b''), (''name'', VStr ''other'')]])
   = Inr [(VStr ''a'', product_info [(''id'', VStr ''a''), (''name'', VStr ''second'')]),
          (VStr ''b'', product_info [(''productId'', VStr ''b''), (''name'', VStr ''other'')])]"
    by (simp add: build_product_lookup_def product_pid_def dget_def dget_default_def
        py_or_def py_eq_def Let_def)
  have later: "\<forall>q. VDict q \<in> set [VDict [(''productId'', VStr ''b''), (''name'', VStr ''other'')]]
      \<longrightarrow> \<not> py_eq (product_pid q) (product_pid [(''id'', VStr ''a''), (''name'', VStr ''second'')])"
    by (simp add: product_pid_def dget_def dget_default_def py_or_def py_eq_def)
  from last_record_wins[OF run later] run show ?thesis by simp
qed

text \<open>
  Claim C5 says that a record with neither \<^verbatim>\<open>id\<close> nor \<^verbatim>\<open>productId\<close> contributes
  no entry to the index. The loop has no such test: \<^verbatim>\<open>pid\<close> is then \<^verbatim>\<open>None\<close> and the
  record is stored under the key \<^verbatim>\<open>None\<close>, as the index of a one-record list shows.
\<close>

theorem build_product_lookup_unresolved_example:
  "build_product_lookup [VDict [(''name'', VStr ''Widget'')]]
   = Inr [(VNone, \<lparr> info_Product = VStr ''Widget'', info_SKU = VNone,
                      info_Stock_Real = VNone, info_Weight = VNone,
                      info_Attributes = VNone \<rparr>)]"
  by (simp add: build_product_lookup_def product_pid_def product_info_def dget_def
      dget_default_def py_or_def)

text \<open>
  Claim C5, amended. An empty product list yields the empty index. A record with
  neither \<^verbatim>\<open>id\<close> nor \<^verbatim>\<open>productId\<close> has the identifier \<^verbatim>\<open>None\<close> and is stored under
  that key, so the index has an entry for \<^verbatim>\<open>None\<close>. That entry is never read: the
  resolver, and with it the whole report, gives the same result on the index with the
  \<^verbatim>\<open>None\<close> entry removed, so such a record behaves as a catalog miss.
\<close>

theorem build_product_lookup_keeps_unresolved:
  "build_product_lookup [] = Inr []
   \<and> (build_product_lookup ps = Inr l \<and> VDict p \<in> set ps
        \<and> map_of p ''id'' = None \<and> map_of p ''productId'' = None
        \<longrightarrow> product_pid p = VNone \<and> dict_get l VNone \<noteq> None)
   \<and> resolve_item E (without_None l) item = resolve_item E l item
   \<and> get_products_info_for_row E products (without_None l)
       = get_products_info_for_row E products l"
proof -
  have a: "build_product_lookup [] = Inr []"
    by (simp add: build_product_lookup_def)
  have b: "product_pid p = VNone \<and> dict_get l VNone \<noteq> None"
    if "build_product_lookup ps = Inr l" "VDict p \<in> set ps"
       "map_of p ''id'' = None" "map_of p ''productId'' = None"
  proof -
    have pid: "product_pid p = VNone"
      using that(3,4) by (rule product_pid_absent)
    from that(1) have "build_product_lookup_loop [] ps = Inr l"
      by (simp add: build_product_lookup_def)
    from loop_stores[OF this that(2)] pid show ?thesis by simp
  qed
  from a b show ?thesis
    by (simp add: resolve_item_without_None report_without_None)
qed

theorem build_product_lookup_keeps_unresolved_witness:
  "product_pid [(''name'', VStr ''Widget'')] = VNone
   \<and> dict_get [(VNone, product_info [(''name'', VStr ''Widget'')])] VNone \<noteq> None
   \<and> get_products_info_for_row example_env (Obj (VList [VDict [(''units'', VInt 5)]]))
         (without_None [(VNone, product_info [(''name'', VStr ''Widget'')])])
       = get_products_info_for_row example_env (Obj (VList [VDict [(''units'', VInt 5)]]))
           [(VNone, product_info [(''name'', VStr ''Widget'')])]"
  using build_product_lookup_keeps_unresolved
    [of "[VDict [(''name'', VStr ''Widget'')]]"
        "[(VNone, product_info [(''name'', VStr ''Widget'')])]"
        "[(''name'', VStr ''Widget'')]" example_env "VNone"
        "Obj (VList [VDict [(''units'', VInt 5)]])"]
  by (simp add: build_product_lookup_def product_pid_def dget_def dget_default_def py_or_def)

subsection \<open>The resolved line\<close>

lemma example_lookup_eq:
  "example_lookup =
     [(VStr ''p1'',
       \<lparr> info_Product = VStr ''Box'', info_SKU = VStr ''A-1'', info_Stock_Real = VInt 3,
         info_Weight = VFloat (Fin (5 / 2)), info_Attributes = VList example_attributes \<rparr>),
      (VStr ''p2'',
       \<lparr> info_Product = VStr ''Cube'', info_SKU = VStr ''B-2'',
         info_Stock_Real = VFloat (round_double (3 / 10)),
         info_Weight = VFloat (round_double (15 / 10000)),
         info_Attributes = VList cube_attributes \<rparr>),
      (VStr ''p3'',
       \<lparr> info_Product = VStr ''Rod'', info_SKU = VStr ''C-3'',
         info_Stock_Real = VFloat FNaN, info_Weight = VNone, info_Attributes = VNone \<rparr>)]"
  by (simp add: example_lookup_def example_product_def cube_product_def nan_product_def
      build_product_lookup_def product_pid_def product_info_def dget_def dget_default_def
      py_or_def py_eq_def Let_def)

lemma make_data_Inr:
  "make_data units name sku stock net_w (a, b, c, sc) = Inr (sc', d) \<longleftrightarrow>
     (\<exists>insuf falta extra tw.
        shortage sku stock units = Inr (insuf, falta, extra)
        \<and> total_weight net_w units = Inr tw
        \<and> sc' = sc
        \<and> d = [(Product, name), (SKU, sku), (Units, units), (Gross_Weight, net_w),
                (Total_Weight, tw), (Volume, volume_of a b c), (Stock_Real, stock),
                (Insuficiente, insuf), (Falta, falta), (Extra, extra)])"
  by (auto simp: make_data_def split: sum.splits prod.splits)

lemma resolve_item_Inr:
  assumes "resolve_item E L item = Inr (sc, d)"
  obtains kv name sku stock net_w a b c
  where "item = VDict kv"
    and "make_data (dget_default kv ''units'' (VInt 0)) name sku stock net_w (a, b, c, sc) = Inr (sc, d)"
proof (cases item)
  case (VDict kv)
  show ?thesis
  proof (cases "find_info L (item_pid kv)")
    case (Inl e)
    with assms VDict show ?thesis by simp
  next
    case (Inr r)
    show ?thesis
    proof (cases r)
      case None
      with assms VDict Inr
      have m: "make_data (dget_default kv ''units'' (VInt 0))
          (py_or (dget kv ''name'') (VStr '''')) (py_or (dget kv ''sku'') (VStr ''''))
          (VStr '''') (py_or (dget kv ''weight'') (VFloat 0))
          (None, None, None, default_subcat) = Inr (sc, d)"
        by (simp add: branch_b_def)
      then have "sc = default_subcat" by (auto simp: make_data_Inr)
      with m VDict that show ?thesis by blast
    next
      case (Some info)
      with assms VDict Inr obtain st where
        m: "make_data (dget_default kv ''units'' (VInt 0)) (info_Product info) (info_SKU info)
              (info_Stock_Real info) (info_Weight info) st = Inr (sc, d)"
        by (auto simp: branch_a_def split: sum.splits)
      obtain a b c sc0 where st: "st = (a, b, c, sc0)" by (cases st)
      with m have "sc0 = sc" by (auto simp: make_data_Inr)
      with m st VDict that show ?thesis by blast
    qed
  qed
qed (use assms in simp_all)

lemma field_data [simp]:
  "field [(Product, name), (SKU, sku), (Units, units), (Gross_Weight, net_w),
          (Total_Weight, tw), (Volume, vol), (Stock_Real, stock),
          (Insuficiente, insuf), (Falta, falta), (Extra, extra)] c
   = (case c of Product \<Rightarrow> name | SKU \<Rightarrow> sku | Units \<Rightarrow> units | Gross_Weight \<Rightarrow> net_w
      | Total_Weight \<Rightarrow> tw | Volume \<Rightarrow> vol | Stock_Real \<Rightarrow> stock
      | Insuficiente \<Rightarrow> insuf | Falta \<Rightarrow> falta | Extra \<Rightarrow> extra | _ \<Rightarrow> VNone)"
  by (cases c) (simp_all add: field_def)

lemma find_info_None_iff:
  "find_info L pid = Inr None \<longleftrightarrow> pid = VNone \<or> hashable pid \<and> dict_get L pid = None"
  by (simp add: find_info_def)

lemma shortage_unknown_stock [simp]:
  "shortage sku (VStr s) units = Inr (VStr [], VInt 0, VInt 0)"
  by (simp add: shortage_def)

text \<open>
  Claim C8. For an order line whose identifier is absent, or hashable and not in the
  catalog index, the resolved line is in the default subcategory and has the inline
  name and SKU (the empty string when absent or falsy), the inline weight (0.0 when
  absent or falsy), the empty string as stock, no volume, an empty flag, and
  \<^verbatim>\<open>Falta\<close> and \<^verbatim>\<open>Extra\<close> 0. The only failure left on this branch is that of the
  total weight, when weight and units are truthy and the product cannot be computed or
  rounded. The example is the order line
  \<^verbatim>\<open>{productId: "zz", name: "Widget", sku: "", units: 5}\<close> against a catalog without
  \<^verbatim>\<open>zz\<close>.
\<close>

theorem branch_b_line:
  assumes "item_pid item = VNone
           \<or> hashable (item_pid item) \<and> dict_get L (item_pid item) = None"
  shows "resolve_item E L (VDict item) =
     (case total_weight (py_or (dget item ''weight'') (VFloat 0))
             (dget_default item ''units'' (VInt 0)) of
        Inl e \<Rightarrow> Inl e
      | Inr tw \<Rightarrow>
          Inr (default_subcat,
               [(Product, py_or (dget item ''name'') (VStr [])),
                (SKU, py_or (dget item ''sku'') (VStr [])),
                (Units, dget_default item ''units'' (VInt 0)),
                (Gross_Weight, py_or (dget item ''weight'') (VFloat 0)),
                (Total_Weight, tw),
                (Volume, VNone),
                (Stock_Real, VStr []),
                (Insuficiente, VStr []),
                (Falta, VInt 0),
                (Extra, VInt 0)]))"
proof -
  from assms have "find_info L (item_pid item) = Inr None"
    by (simp add: find_info_None_iff)
  then show ?thesis
    by (simp add: branch_b_def make_data_def split: sum.splits)
qed

theorem branch_b_line_witness:
  "resolve_item example_env example_lookup
     (VDict [(''productId'', VStr ''zz''), (''name'', VStr ''Widget''), (''sku'', VStr []),
             (''units'', VInt 5)])
   = Inr (default_subcat,
          [(Product, VStr ''Widget''), (SKU, VStr []), (Units, VInt 5),
           (Gross_Weight, VFloat 0), (Total_Weight, VNone), (Volume, VNone),
           (Stock_Real, VStr []), (Insuficiente, VStr []), (Falta, VInt 0),
           (Extra, VInt 0)])"
proof -
  have miss: "item_pid [(''productId'', VStr ''zz''), (''name'', VStr ''Widget''),
                        (''sku'', VStr []), (''units'', VInt 5)] = VNone
      \<or> hashable (item_pid [(''productId'', VStr ''zz''), (''name'', VStr ''Widget''),
                             (''sku'', VStr []), (''units'', VInt 5)])
        \<and> dict_get example_lookup
            (item_pid [(''productId'', VStr ''zz''), (''name'', VStr ''Widget''),
                       (''sku'', VStr []), (''units'', VInt 5)]) = None"
    by (simp add: example_lookup_eq item_pid_def dget_def dget_default_def py_eq_def)
  show ?thesis
    using branch_b_line[OF miss, of example_env]
    by (simp add: dget_def dget_default_def py_or_def total_weight_def zero_pyfloat_def)
qed

subsection \<open>The empty report\<close>

text \<open>
  Claim C9. When the document row has no line item, the result is not an error but the
  table with no row and the fourteen columns \<^verbatim>\<open>SKU\<close>, \<^verbatim>\<open>Product\<close>, \<^verbatim>\<open>Units\<close>,
  \<^verbatim>\<open>Subtotal > Units\<close>, \<^verbatim>\<open>Gross Weight (kg)\<close>, \<^verbatim>\<open>Total Weight (kg)\<close>,
  \<^verbatim>\<open>Subtotal > Total Weight (kg)\<close>, \<^verbatim>\<open>Volume\<close>, \<^verbatim>\<open>Subtotal > Volume\<close>,
  \<^verbatim>\<open>Stock Real\<close>, \<^verbatim>\<open>Insuficiente?\<close>, \<^verbatim>\<open>Falta\<close>, \<^verbatim>\<open>Subtotal > Falta\<close>, \<^verbatim>\<open>Extra\<close>.
\<close>

theorem empty_report:
  assumes "items_of products = Inr []"
  shows "get_products_info_for_row E products L
           = Inr \<lparr> df_columns = all_columns, df_rows = [] \<rparr>
    \<and> map col_name all_columns =
        [''SKU'', ''Product'', ''Units'', ''Subtotal > Units'',
         ''Gross Weight (kg)'', ''Total Weight (kg)'', ''Subtotal > Total Weight (kg)'',
         ''Volume (m'' @ [CHR 0xC2, CHR 0xB3] @ '')'',
         ''Subtotal > Volume (m'' @ [CHR 0xC2, CHR 0xB3] @ '')'',
         ''Stock Real'', ''Insuficiente?'', ''Falta'', ''Subtotal > Falta'', ''Extra'']"
  using assms by (simp add: get_products_info_for_row_def all_columns_def)

theorem empty_report_witness:
  "items_of (Obj (VList [])) = Inr []
   \<and> get_products_info_for_row example_env (Obj (VList [])) example_lookup
       = Inr \<lparr> df_columns = all_columns, df_rows = [] \<rparr>
   \<and> length all_columns = 14"
proof -
  have e: "items_of (Obj (VList [])) = Inr []"
    by (simp add: py_or_def)
  from empty_report[OF e, of example_env example_lookup] e show ?thesis
    by (simp add: all_columns_def)
qed

subsection \<open>Rounding to a double\<close>

text \<open>
  \<open>ilog2\<close> is the binary logarithm rounded down. Rounding to a double commutes with the
  sign; a number of absolute value \<open>2\<^sup>1\<^sup>0\<^sup>2\<^sup>4\<close> or more becomes an infinity, and one below
  \<open>2\<^sup>1\<^sup>0\<^sup>2\<^sup>3\<close> stays finite.
\<close>

lemma pow2_powi: "pow2 k = 2 powi k"
  by (simp add: pow2_def power_int_def inverse_eq_divide power_one_over field_simps)

lemma pow2_pos [simp]: "0 < pow2 k"
  by (simp add: pow2_powi)

lemma pow2_add: "pow2 (a + b) = pow2 a * pow2 b"
  by (simp add: pow2_powi power_int_add)

lemma pow2_diff: "pow2 (a - b) = pow2 a / pow2 b"
  by (simp add: pow2_powi power_int_diff)

lemma pow2_nat: "0 \<le> k \<Longrightarrow> pow2 k = 2 ^ nat k"
  by (simp add: pow2_def)

lemma pow2_mono: "a \<le> b \<Longrightarrow> pow2 a \<le> pow2 b"
  by (simp add: pow2_powi power_int_increasing)

lemma pow2_strict_mono: "a < b \<Longrightarrow> pow2 a < pow2 b"
  by (simp add: pow2_powi power_int_strict_increasing)

lemma pow2_less_iff: "pow2 a < pow2 b \<longleftrightarrow> a < b"
  using pow2_strict_mono[of a b] pow2_mono[of b a] by (auto simp: not_less[symmetric])

lemma ilog2_bounds:
  assumes "0 < x"
  shows "pow2 (ilog2 x) \<le> x" and "x < pow2 (ilog2 x + 1)"
proof -
  obtain p q where pq: "quotient_of x = (p, q)" by (cases "quotient_of x")
  then have q: "0 < q" and x: "x = of_int p / of_int q"
    using quotient_of_denom_pos quotient_of_div by blast+
  with assms have p: "0 < p"
    by (simp add: zero_less_divide_iff)
  define k where "k = bitlen p - bitlen q"
  from bitlen_bounds[OF p] have p1: "(2::int) ^ nat (bitlen p - 1) \<le> p" and p2: "p < 2 ^ nat (bitlen p)"
    by simp_all
  from bitlen_bounds[OF q] have q1: "(2::int) ^ nat (bitlen q - 1) \<le> q" and q2: "q < 2 ^ nat (bitlen q)"
    by simp_all
  have bp: "0 < bitlen p"
  proof (rule ccontr)
    assume "\<not> 0 < bitlen p"
    then have "nat (bitlen p) = 0" by simp
    with p2 p show False by simp
  qed
  have bq: "0 < bitlen q"
  proof (rule ccontr)
    assume "\<not> 0 < bitlen q"
    then have "nat (bitlen q) = 0" by simp
    with q2 q show False by simp
  qed
  have P1: "pow2 (bitlen p - 1) \<le> of_int p"
  proof -
    have "(of_int (2 ^ nat (bitlen p - 1)) :: rat) \<le> of_int p"
      using p1 by (simp only: of_int_le_iff)
    then show ?thesis using bp by (simp add: pow2_nat)
  qed
  have P2: "of_int p < pow2 (bitlen p)"
  proof -
    have "(of_int p :: rat) < of_int (2 ^ nat (bitlen p))"
      using p2 by (simp only: of_int_less_iff)
    then show ?thesis using bp by (simp add: pow2_nat)
  qed
  have Q1: "pow2 (bitlen q - 1) \<le> of_int q"
  proof -
    have "(of_int (2 ^ nat (bitlen q - 1)) :: rat) \<le> of_int q"
      using q1 by (simp only: of_int_le_iff)
    then show ?thesis using bq by (simp add: pow2_nat)
  qed
  have Q2: "of_int q < pow2 (bitlen q)"
  proof -
    have "(of_int q :: rat) < of_int (2 ^ nat (bitlen q))"
      using q2 by (simp only: of_int_less_iff)
    then show ?thesis using bq by (simp add: pow2_nat)
  qed
  have qpos: "(0::rat) < of_int q" using q by simp
  have ppos: "(0::rat) < of_int p" using p by simp
  have up: "x < pow2 (k + 1)"
  proof -
    have "x < pow2 (bitlen p) / of_int q"
      unfolding x using P2 qpos by (simp add: divide_strict_right_mono)
    also have "\<dots> \<le> pow2 (bitlen p) / pow2 (bitlen q - 1)"
      using Q1 qpos by (intro divide_left_mono) (simp_all add: less_imp_le)
    also have "\<dots> = pow2 (k + 1)"
      by (simp add: k_def pow2_diff[symmetric] algebra_simps)
    finally show ?thesis .
  qed
  have lo: "pow2 (k - 1) < x"
  proof -
    have "pow2 (k - 1) = pow2 (bitlen p - 1) / pow2 (bitlen q)"
      by (simp add: k_def pow2_diff[symmetric] algebra_simps)
    also have "\<dots> < pow2 (bitlen p - 1) / of_int q"
      using Q2 qpos by (intro divide_strict_left_mono) simp_all
    also have "\<dots> \<le> x"
      unfolding x using P1 qpos by (simp add: divide_right_mono)
    finally show ?thesis .
  qed
  show "pow2 (ilog2 x) \<le> x"
    using lo by (simp add: ilog2_def pq k_def[symmetric] Let_def less_imp_le)
  show "x < pow2 (ilog2 x + 1)"
    using up by (simp add: ilog2_def pq k_def[symmetric] Let_def not_le)
qed

lemma round_half_even_nonneg: "0 \<le> x \<Longrightarrow> 0 \<le> round_half_even x"
  by (auto simp: round_half_even_def Let_def)

lemma round_half_even_of_int [simp]: "round_half_even (of_int k) = k"
  by (simp add: round_half_even_def)

lemma fneg_infinity: "fneg (infinity b) = infinity (\<not> b)"
  by (simp add: infinity_def)

lemma round_double_minus: "round_double (- x) = fneg (round_double x)"
  by (cases "x = 0") (auto simp: round_double_def Let_def fneg_infinity sgn_if)

lemma fabs_infinity [simp]: "fabs (infinity b) = PInf"
  by (simp add: infinity_def)

lemma fabs_round_double: "fabs (round_double x) = round_double \<bar>x\<bar>"
proof (cases "x = 0")
  case True
  then show ?thesis by (simp add: round_double_def)
next
  case False
  have m: "0 \<le> round_half_even (\<bar>x\<bar> / pow2 q)" for q
    by (rule round_half_even_nonneg) (simp add: less_imp_le)
  have "\<bar>sgn x * of_int (round_half_even (\<bar>x\<bar> / pow2 q)) * pow2 q\<bar>
        = of_int (round_half_even (\<bar>x\<bar> / pow2 q)) * pow2 q" for q
    using False m[of q] by (simp add: abs_mult abs_sgn_eq less_imp_le)
  with False show ?thesis
    by (auto simp: round_double_def Let_def infinity_def)
qed

lemma round_double_overflow:
  assumes "2 ^ 1024 \<le> \<bar>x\<bar>"
  shows "round_double x = infinity (0 < x)"
proof -
  from assms have nz: "x \<noteq> 0" by auto
  then have pos: "0 < \<bar>x\<bar>" by simp
  have "pow2 1024 \<le> \<bar>x\<bar>" using assms by (simp add: pow2_def)
  also have "\<dots> < pow2 (ilog2 \<bar>x\<bar> + 1)" by (rule ilog2_bounds(2)[OF pos])
  finally have "1023 < ilog2 \<bar>x\<bar>" by (simp add: pow2_less_iff)
  with nz show ?thesis by (simp add: round_double_def Let_def)
qed

lemma round_double_finite:
  assumes "\<bar>x\<bar> < 2 ^ 1023"
  shows "\<exists>r. round_double x = Fin r"
proof (cases "x = 0")
  case True
  then show ?thesis by (simp add: round_double_def)
next
  case False
  then have pos: "0 < \<bar>x\<bar>" by simp
  have "pow2 (ilog2 \<bar>x\<bar>) \<le> \<bar>x\<bar>" by (rule ilog2_bounds(1)[OF pos])
  also have "\<dots> < pow2 1023" using assms by (simp add: pow2_def)
  finally have "ilog2 \<bar>x\<bar> < 1023" by (simp add: pow2_less_iff)
  with False show ?thesis by (simp add: round_double_def Let_def)
qed

lemma fabs_fsub: "\<not> fle u s \<Longrightarrow> fabs (fsub s u) = fsub u s"
proof (cases s; cases u)
  fix a b assume "s = Fin a" "u = Fin b" "\<not> fle u s"
  then have "a < b" by simp
  then have "\<bar>a - b\<bar> = b - a" by simp
  with \<open>s = Fin a\<close> \<open>u = Fin b\<close> show ?thesis
    by (simp add: fsub_def fabs_round_double)
qed (simp_all add: fsub_def)

lemma float_of_int_huge: "float_of_int (10 ^ 400) = Inl OverflowError"
proof -
  have "(2::rat) ^ 1024 \<le> \<bar>of_int (10 ^ 400)\<bar>" by simp
  from round_double_overflow[OF this] show ?thesis
    by (simp add: float_of_int_def infinity_def)
qed

subsection \<open>Arithmetic on Python numbers\<close>

lemma num_of_is_number: "is_number v \<longleftrightarrow> num_of v \<noteq> None"
  by (cases v) simp_all

lemma int_of_is_number: "int_of v = Some i \<Longrightarrow> is_number v"
  by (cases v) simp_all

lemma num_of_int_of: "int_of v = Some i \<Longrightarrow> num_of v = Some (Fin (of_int i))"
  by (cases v) auto

lemma num_binop_ints:
  "int_of a = Some i \<Longrightarrow> int_of b = Some j \<Longrightarrow> num_binop fi ff a b = Inr (VInt (fi i j))"
  by (simp add: num_binop_def int_of_is_number)

lemma num_binop_floats:
  "is_number a \<Longrightarrow> is_number b \<Longrightarrow> int_of a = None \<or> int_of b = None \<Longrightarrow>
   num_binop fi ff a b =
     (case to_float a of
        Inl e \<Rightarrow> Inl e
      | Inr x \<Rightarrow> (case to_float b of Inl e \<Rightarrow> Inl e | Inr y \<Rightarrow> Inr (VFloat (ff x y))))"
  by (auto simp: num_binop_def split: option.splits)

lemma num_binop_TypeError:
  "\<not> (is_number a \<and> is_number b) \<Longrightarrow> num_binop fi ff a b = Inl TypeError"
  by (auto simp: num_binop_def)

lemma num_binop_Inr:
  assumes "num_binop fi ff a b = Inr r"
  shows "is_number a \<and> is_number b
    \<and> (\<forall>i j. int_of a = Some i \<and> int_of b = Some j \<longrightarrow> r = VInt (fi i j))
    \<and> (int_of a = None \<or> int_of b = None
        \<longrightarrow> (\<exists>x y. to_float a = Inr x \<and> to_float b = Inr y \<and> r = VFloat (ff x y)))"
proof -
  from assms have n: "is_number a" "is_number b"
    using num_binop_TypeError[of a b fi ff] by auto
  have 1: "r = VInt (fi i j)" if "int_of a = Some i" "int_of b = Some j" for i j
    using assms num_binop_ints[OF that, of fi ff] by simp
  have 2: "\<exists>x y. to_float a = Inr x \<and> to_float b = Inr y \<and> r = VFloat (ff x y)"
    if "int_of a = None \<or> int_of b = None"
    using assms num_binop_floats[OF n that, of fi ff] by (auto split: sum.splits)
  from n 1 2 show ?thesis by blast
qed

lemma fle_total: "fle y x \<longleftrightarrow> \<not> flt x y \<and> x \<noteq> FNaN \<and> y \<noteq> FNaN"
  by (cases x; cases y) (auto simp: flt_def)

lemma is_nan_num_of: "is_nan v \<longleftrightarrow> num_of v = Some FNaN"
  by (cases v) (auto simp: is_nan_def)

lemma py_ge_numbers:
  "is_number a \<Longrightarrow> is_number b \<Longrightarrow>
   py_ge a b = Inr (\<not> (py_lt a b \<or> is_nan a \<or> is_nan b))"
  by (auto simp: py_ge_def py_lt_def num_of_is_number is_nan_num_of fle_total)

lemma py_ge_Inr: "py_ge a b = Inr r \<Longrightarrow> is_number a \<and> is_number b"
  by (auto simp: py_ge_def num_of_is_number split: option.splits)

lemma unrounded_to_float: "unrounded v \<Longrightarrow> num_of v = Some x \<Longrightarrow> to_float v = Inr x"
  by (simp add: unrounded_def)

text \<open>
  When the first number is not greater than or equal to the second, the absolute value
  of their difference is the difference taken the other way round.
\<close>

lemma py_abs_difference:
  assumes "py_ge a b = Inr False" and "py_sub a b = Inr diff" and "unrounded_operands a b"
  shows "py_sub b a = Inr (py_abs diff)"
proof -
  from assms(1) have n: "is_number a" "is_number b" by (auto dest: py_ge_Inr)
  then obtain x y where xy: "num_of a = Some x" "num_of b = Some y"
    by (auto simp: num_of_is_number)
  with assms(1) have lt: "\<not> fle y x" by (simp add: py_ge_def)
  show ?thesis
  proof (cases "int_of a \<noteq> None \<and> int_of b \<noteq> None")
    case True
    then obtain i j where ij: "int_of a = Some i" "int_of b = Some j" by auto
    with xy have "x = Fin (of_int i)" "y = Fin (of_int j)" by (auto dest: num_of_int_of)
    with lt have "i < j" by simp
    moreover from assms(2) ij have "diff = VInt (i - j)"
      by (simp add: py_sub_def num_binop_ints)
    ultimately show ?thesis
      using ij by (simp add: py_sub_def num_binop_ints)
  next
    case False
    with assms(3) have u: "unrounded a" "unrounded b"
      by (auto simp: unrounded_operands_def)
    from False have f: "int_of a = None \<or> int_of b = None" by auto
    then have f': "int_of b = None \<or> int_of a = None" by auto
    from u xy have tf: "to_float a = Inr x" "to_float b = Inr y"
      by (auto dest: unrounded_to_float)
    from assms(2) have "diff = VFloat (fsub x y)"
      by (simp add: py_sub_def num_binop_floats[OF n f] tf)
    then show ?thesis
      by (simp add: py_sub_def num_binop_floats[OF n(2,1) f'] tf fabs_fsub[OF lt])
  qed
qed

subsection \<open>The shortage fields\<close>

lemma shortage_spec:
  assumes "is_number units" and "shortage sku stock units = Inr (insuf, falta, extra)"
  shows "(insuf = VStr ''STOCK INSUFICIENTE''
            \<longleftrightarrow> truthy sku \<and> is_number stock
                \<and> (py_lt stock units \<or> is_nan stock \<or> is_nan units))
    \<and> (truthy sku \<and> is_number stock \<and> (py_lt stock units \<or> is_nan stock \<or> is_nan units)
          \<longrightarrow> (\<exists>diff. py_sub stock units = Inr diff \<and> falta = py_abs diff)
              \<and> (unrounded_operands stock units \<longrightarrow> py_sub units stock = Inr falta)
              \<and> extra = VInt 0)
    \<and> (\<not> (truthy sku \<and> is_number stock
            \<and> (py_lt stock units \<or> is_nan stock \<or> is_nan units))
          \<longrightarrow> insuf = VStr [] \<and> falta = VInt 0)
    \<and> (truthy sku \<and> is_number stock
          \<and> \<not> (py_lt stock units \<or> is_nan stock \<or> is_nan units)
          \<longrightarrow> py_sub stock units = Inr extra)
    \<and> (\<not> truthy sku \<or> \<not> is_number stock \<longrightarrow> extra = VInt 0)"
proof (cases "truthy sku \<and> is_number stock")
  case False
  with assms show ?thesis by (auto simp: shortage_def)
next
  case True
  then have ge: "py_ge stock units
      = Inr (\<not> (py_lt stock units \<or> is_nan stock \<or> is_nan units))"
    using assms(1) by (simp add: py_ge_numbers)
  from assms(2) True ge obtain diff where diff: "py_sub stock units = Inr diff"
    by (auto simp: shortage_def split: sum.splits)
  show ?thesis
  proof (cases "py_lt stock units \<or> is_nan stock \<or> is_nan units")
    case lt: True
    with ge have ge': "py_ge stock units = Inr False" by simp
    with assms(2) True diff have r: "insuf = VStr ''STOCK INSUFICIENTE''"
      "falta = py_abs diff" "extra = VInt 0"
      by (simp_all add: shortage_def)
    have "py_sub units stock = Inr falta" if "unrounded_operands stock units"
      using py_abs_difference[OF ge' diff that] r by simp
    with r True lt diff show ?thesis by auto
  next
    case nlt: False
    with ge have "py_ge stock units = Inr True" by simp
    with assms(2) True diff have "insuf = VStr []" "falta = VInt 0" "extra = diff"
      by (simp_all add: shortage_def)
    with True nlt diff show ?thesis by auto
  qed
qed

text \<open>
  Claim C1 says that the flag is set if and only if the SKU is non-empty, the stock is
  a number and the stock is below the units. The third product of the example catalog
  has the stock \<^verbatim>\<open>NaN\<close>, which is a float, and \<^verbatim>\<open>NaN >= 1\<close> is false: the line of an
  order of 1 unit carries the flag although the stock is not below the units.
\<close>

theorem shortage_flag_on_nan_stock:
  "resolve_item example_env example_lookup
     (VDict [(''productId'', VStr ''p3''), (''units'', VInt 1)])
   = Inr (default_subcat,
          [(Product, VStr ''Rod''), (SKU, VStr ''C-3''), (Units, VInt 1),
           (Gross_Weight, VNone), (Total_Weight, VNone), (Volume, VNone),
           (Stock_Real, VFloat FNaN), (Insuficiente, VStr ''STOCK INSUFICIENTE''),
           (Falta, VFloat FNaN), (Extra, VInt 0)])
   \<and> is_number (VFloat FNaN) \<and> \<not> py_lt (VFloat FNaN) (VInt 1)"
  by code_simp

text \<open>
  Claim C1, amended. For a line that the resolver produces from an order line whose
  units are a number (0 when the order line has none): the flag \<^verbatim>\<open>Insuficiente?\<close> is
  \<^verbatim>\<open>STOCK INSUFICIENTE\<close> if and only if the line's SKU is non-empty (truthy), its stock
  is a number and \<^verbatim>\<open>stock >= units\<close> is false, that is, the stock is below the units or
  one of the two is a NaN. In exactly that case \<^verbatim>\<open>Falta\<close> is \<^verbatim>\<open>abs(stock - units)\<close> and
  \<^verbatim>\<open>Extra\<close> is 0, and \<^verbatim>\<open>Falta\<close> is what Python computes for \<^verbatim>\<open>units - stock\<close> whenever
  no operand is rounded (both are integers, or none is an integer that its conversion to
  a float changes). In every other case the flag is empty and \<^verbatim>\<open>Falta\<close> is 0, with
  \<^verbatim>\<open>Extra\<close> the Python difference \<^verbatim>\<open>stock - units\<close> when the stock is a number and
  \<^verbatim>\<open>stock >= units\<close> holds, and 0 when the SKU is empty or the stock is not a number.
  The differences are exact on two integers and rounded to the nearest double otherwise.
\<close>

theorem shortage_fields:
  assumes "resolve_item E L (VDict item) = Inr (subcat, d)"
    and "is_number (dget_default item ''units'' (VInt 0))"
  shows "field d Units = dget_default item ''units'' (VInt 0)
    \<and> (field d Insuficiente = VStr ''STOCK INSUFICIENTE''
          \<longleftrightarrow> truthy (field d SKU) \<and> is_number (field d Stock_Real)
              \<and> (py_lt (field d Stock_Real) (field d Units)
                  \<or> is_nan (field d Stock_Real) \<or> is_nan (field d Units)))
    \<and> (truthy (field d SKU) \<and> is_number (field d Stock_Real)
          \<and> (py_lt (field d Stock_Real) (field d Units)
              \<or> is_nan (field d Stock_Real) \<or> is_nan (field d Units))
        \<longrightarrow> (\<exists>diff. py_sub (field d Stock_Real) (field d Units) = Inr diff
                    \<and> field d Falta = py_abs diff)
            \<and> (unrounded_operands (field d Stock_Real) (field d Units)
                \<longrightarrow> py_sub (field d Units) (field d Stock_Real) = Inr (field d Falta))
            \<and> field d Extra = VInt 0)
    \<and> (\<not> (truthy (field d SKU) \<and> is_number (field d Stock_Real)
            \<and> (py_lt (field d Stock_Real) (field d Units)
                \<or> is_nan (field d Stock_Real) \<or> is_nan (field d Units)))
        \<longrightarrow> field d Insuficiente = VStr [] \<and> field d Falta = VInt 0)
    \<and> (truthy (field d SKU) \<and> is_number (field d Stock_Real)
          \<and> \<not> (py_lt (field d Stock_Real) (field d Units)
                \<or> is_nan (field d Stock_Real) \<or> is_nan (field d Units))
        \<longrightarrow> py_sub (field d Stock_Real) (field d Units) = Inr (field d Extra))
    \<and> (\<not> truthy (field d SKU) \<or> \<not> is_number (field d Stock_Real)
        \<longrightarrow> field d Extra = VInt 0)"
proof -
  from assms(1) obtain name sku stock net_w a b c where
    m: "make_data (dget_default item ''units'' (VInt 0)) name sku stock net_w (a, b, c, subcat)
          = Inr (subcat, d)"
    by (elim resolve_item_Inr) simp
  then obtain insuf falta extra tw where
    s: "shortage sku stock (dget_default item ''units'' (VInt 0)) = Inr (insuf, falta, extra)"
    and d: "d = [(Product, name), (SKU, sku), (Units, dget_default item ''units'' (VInt 0)),
                 (Gross_Weight, net_w), (Total_Weight, tw), (Volume, volume_of a b c),
                 (Stock_Real, stock), (Insuficiente, insuf), (Falta, falta), (Extra, extra)]"
    by (auto simp: make_data_Inr)
  from shortage_spec[OF assms(2) s] show ?thesis
    unfolding d by simp
qed

text \<open>
  Three lines of the example catalog: 5 boxes against a stock of 3 (a shortage of 2);
  5 cubes against a stock of 0.3 (a shortage of 4.7, the double nearest to \<open>5 - 0.3\<close>);
  and 0.1 cube against the stock of 0.3, with the surplus \<^verbatim>\<open>0.3 - 0.1\<close>, which is
  the double \<^verbatim>\<open>0.19999999999999998\<close> and not the double \<^verbatim>\<open>0.2\<close>.
\<close>

theorem shortage_fields_witness:
  "resolve_item example_env example_lookup (VDict example_item)
     = Inr (default_subcat, example_data)
   \<and> field example_data Stock_Real = VInt 3 \<and> field example_data Units = VInt 5
   \<and> field example_data Insuficiente = VStr ''STOCK INSUFICIENTE''
   \<and> py_sub (VInt 5) (VInt 3) = Inr (field example_data Falta)
   \<and> field example_data Falta = VInt 2
   \<and> field example_data Extra = VInt 0
   \<and> resolve_item example_env example_lookup (VDict cube_item)
       = Inr (default_subcat, cube_data)
   \<and> field cube_data Insuficiente = VStr ''STOCK INSUFICIENTE''
   \<and> py_sub (VInt 5) (VFloat (round_double (3 / 10))) = Inr (field cube_data Falta)
   \<and> field cube_data Falta = VFloat (round_double (47 / 10))
   \<and> resolve_item example_env example_lookup (VDict tenth_item)
       = Inr (default_subcat, tenth_data)
   \<and> field tenth_data Insuficiente = VStr []
   \<and> field tenth_data Falta = VInt 0
   \<and> py_sub (VFloat (round_double (3 / 10))) (VFloat (round_double (1 / 10)))
       = Inr (field tenth_data Extra)
   \<and> field tenth_data Extra = VFloat (Fin (7205759403792793 / 2 ^ 55))
   \<and> field tenth_data Extra \<noteq> VFloat (round_double (2 / 10))"
proof -
  have u: "is_number (dget_default example_item ''units'' (VInt 0))"
    "is_number (dget_default cube_item ''units'' (VInt 0))"
    "is_number (dget_default tenth_item ''units'' (VInt 0))"
    by (simp_all add: dget_default_def example_item_def cube_item_def tenth_item_def)
  have f1: "field example_data SKU = VStr ''A-1''" "field example_data Stock_Real = VInt 3"
    "field example_data Units = VInt 5" "field example_data Falta = VInt 2"
    by (simp_all add: example_data_def)
  have f2: "field cube_data SKU = VStr ''B-2''"
    "field cube_data Stock_Real = VFloat (round_double (3 / 10))"
    "field cube_data Units = VInt 5"
    "field cube_data Falta = VFloat (round_double (47 / 10))"
    by (simp_all add: cube_data_def)
  have f3: "field tenth_data SKU = VStr ''B-2''"
    "field tenth_data Stock_Real = VFloat (round_double (3 / 10))"
    "field tenth_data Units = VFloat (round_double (1 / 10))"
    "field tenth_data Extra = VFloat (Fin (7205759403792793 / 2 ^ 55))"
    by (simp_all add: tenth_data_def)
  have c1: "py_lt (VInt 3) (VInt 5)"
    "unrounded_operands (VInt 3) (VInt 5)"
    by (simp_all add: py_lt_def flt_def unrounded_operands_def)
  have c2: "py_lt (VFloat (round_double (3 / 10))) (VInt 5)"
    "unrounded_operands (VFloat (round_double (3 / 10))) (VInt 5)"
    by code_simp+
  have c3: "\<not> py_lt (VFloat (round_double (3 / 10))) (VFloat (round_double (1 / 10)))"
    "\<not> is_nan (VFloat (round_double (3 / 10)))" "\<not> is_nan (VFloat (round_double (1 / 10)))"
    "VFloat (Fin (7205759403792793 / 2 ^ 55)) \<noteq> VFloat (round_double (2 / 10))"
    by code_simp+
  have e1: "field example_data Insuficiente = VStr ''STOCK INSUFICIENTE''
      \<and> py_sub (VInt 5) (VInt 3) = Inr (field example_data Falta)
      \<and> field example_data Extra = VInt 0"
    using shortage_fields[OF example_line u(1)] c1
    by (simp add: f1 dget_default_def example_item_def)
  have e2: "field cube_data Insuficiente = VStr ''STOCK INSUFICIENTE''
      \<and> py_sub (VInt 5) (VFloat (round_double (3 / 10))) = Inr (field cube_data Falta)"
    using shortage_fields[OF cube_line u(2)] c2
    by (simp add: f2 dget_default_def cube_item_def)
  have e3: "field tenth_data Insuficiente = VStr [] \<and> field tenth_data Falta = VInt 0
      \<and> py_sub (VFloat (round_double (3 / 10))) (VFloat (round_double (1 / 10)))
          = Inr (field tenth_data Extra)"
    using shortage_fields[OF tenth_line u(3)] c3(1,2,3)
    by (simp add: f3 dget_default_def tenth_item_def)
  from e1 e2 e3 example_line cube_line tenth_line f1 f2 f3 c3(4)
  show ?thesis
    by (simp del: resolve_item.simps)
qed

subsection \<open>The total weight\<close>

lemma py_round_Some:
  "py_round d m = Some r \<longleftrightarrow>
     (\<exists>i. int_of m = Some i \<and> r = VInt i) \<or> (\<exists>x. m = VFloat x \<and> r = VFloat (round_float d x))"
  by (cases m) auto

lemma total_weight_spec:
  assumes "total_weight net_w units = Inr tw"
  shows "(truthy net_w \<and> truthy units
          \<longrightarrow> is_number net_w \<and> is_number units
              \<and> (\<forall>i j. int_of net_w = Some i \<and> int_of units = Some j \<longrightarrow> tw = VInt (i * j))
              \<and> (int_of net_w = None \<or> int_of units = None
                  \<longrightarrow> (\<exists>x y. to_float net_w = Inr x \<and> to_float units = Inr y
                              \<and> tw = VFloat (round_float 3 (fmul x y)))))
    \<and> (\<not> (truthy net_w \<and> truthy units) \<longrightarrow> tw = VNone)"
proof (cases "truthy net_w \<and> truthy units")
  case False
  with assms show ?thesis by (auto simp: total_weight_def)
next
  case True
  with assms obtain m where m: "py_mul net_w units = Inr m" and r: "py_round 3 m = Some tw"
    by (auto simp: total_weight_def split: sum.splits option.splits)
  from num_binop_Inr[OF m[unfolded py_mul_def]] have
    n: "is_number net_w" "is_number units"
    and ints: "\<And>i j. int_of net_w = Some i \<Longrightarrow> int_of units = Some j \<Longrightarrow> m = VInt (i * j)"
    and floats: "int_of net_w = None \<or> int_of units = None
       \<Longrightarrow> \<exists>x y. to_float net_w = Inr x \<and> to_float units = Inr y \<and> m = VFloat (fmul x y)"
    by blast+
  have 1: "tw = VInt (i * j)" if "int_of net_w = Some i" "int_of units = Some j" for i j
    using ints[OF that] r by simp
  have 2: "\<exists>x y. to_float net_w = Inr x \<and> to_float units = Inr y
                 \<and> tw = VFloat (round_float 3 (fmul x y))"
    if "int_of net_w = None \<or> int_of units = None"
    using floats[OF that] r by auto
  from True n 1 2 show ?thesis by blast
qed

text \<open>
  Claim C4. On every resolved line, \<^verbatim>\<open>Total Weight (kg)\<close> is the unit weight
  (\<^verbatim>\<open>Gross Weight (kg)\<close>) times the units, rounded to 3 decimals, when both are truthy:
  both are then numbers, the product of two integers is exact (and \<^verbatim>\<open>round\<close> leaves an
  integer as it is), and otherwise both become floats, their product is rounded to the
  nearest double and \<^verbatim>\<open>round(..., 3)\<close> is applied to that double. When either is
  zero, \<^verbatim>\<open>None\<close> or absent it is \<^verbatim>\<open>None\<close>, not a number and so not 0.
\<close>

theorem total_weight_of_line:
  assumes "resolve_item E L item = Inr (subcat, d)"
  shows "(truthy (field d Gross_Weight) \<and> truthy (field d Units)
          \<longrightarrow> is_number (field d Gross_Weight) \<and> is_number (field d Units)
              \<and> (\<forall>i j. int_of (field d Gross_Weight) = Some i \<and> int_of (field d Units) = Some j
                        \<longrightarrow> field d Total_Weight = VInt (i * j))
              \<and> (int_of (field d Gross_Weight) = None \<or> int_of (field d Units) = None
                  \<longrightarrow> (\<exists>x y. to_float (field d Gross_Weight) = Inr x
                              \<and> to_float (field d Units) = Inr y
                              \<and> field d Total_Weight = VFloat (round_float 3 (fmul x y)))))
    \<and> (\<not> (truthy (field d Gross_Weight) \<and> truthy (field d Units))
        \<longrightarrow> field d Total_Weight = VNone \<and> num_of (field d Total_Weight) = None)"
proof -
  from assms obtain kv name sku stock net_w a b c where
    m: "make_data (dget_default kv ''units'' (VInt 0)) name sku stock net_w (a, b, c, subcat)
          = Inr (subcat, d)"
    by (elim resolve_item_Inr)
  then obtain insuf falta extra tw where
    t: "total_weight net_w (dget_default kv ''units'' (VInt 0)) = Inr tw"
    and d: "d = [(Product, name), (SKU, sku), (Units, dget_default kv ''units'' (VInt 0)),
                 (Gross_Weight, net_w), (Total_Weight, tw), (Volume, volume_of a b c),
                 (Stock_Real, stock), (Insuficiente, insuf), (Falta, falta), (Extra, extra)]"
    by (auto simp: make_data_Inr)
  from total_weight_spec[OF t] show ?thesis
    unfolding d by auto
qed

text \<open>
  The line of the 5 cubes: the unit weight is the float \<^verbatim>\<open>0.0015\<close>, the product with
  5 is the double \<^verbatim>\<open>0.0075\<close>, which lies below the decimal 0.0075, and the total
  weight is \<^verbatim>\<open>0.007\<close> (not \<^verbatim>\<open>0.008\<close>, which rounding the decimal to the even digit
  would give). The line of the 5 boxes has \<^verbatim>\<open>2.5 * 5 = 12.5\<close>.
\<close>

theorem total_weight_of_line_witness:
  "resolve_item example_env example_lookup (VDict cube_item)
     = Inr (default_subcat, cube_data)
   \<and> field cube_data Gross_Weight = VFloat (round_double (15 / 10000))
   \<and> field cube_data Units = VInt 5
   \<and> field cube_data Total_Weight
       = VFloat (round_float 3 (fmul (round_double (15 / 10000)) (Fin 5)))
   \<and> round_float 3 (fmul (round_double (15 / 10000)) (Fin 5)) = round_double (7 / 1000)
   \<and> round_double (7 / 1000) \<noteq> round_double (8 / 1000)
   \<and> resolve_item example_env example_lookup (VDict example_item)
       = Inr (default_subcat, example_data)
   \<and> field example_data Total_Weight = VFloat (round_float 3 (fmul (Fin (5 / 2)) (Fin 5)))
   \<and> round_float 3 (fmul (Fin (5 / 2)) (Fin 5)) = Fin (25 / 2)"
proof -
  have f: "field cube_data Gross_Weight = VFloat (round_double (15 / 10000))"
    "field cube_data Units = VInt 5"
    "field example_data Gross_Weight = VFloat (Fin (5 / 2))"
    "field example_data Units = VInt 5"
    by (simp_all add: cube_data_def example_data_def)
  have t: "truthy (VFloat (round_double (15 / 10000)))" "to_float (VInt 5) = Inr (Fin 5)"
    by code_simp+
  have r: "round_float 3 (fmul (round_double (15 / 10000)) (Fin 5)) = round_double (7 / 1000)"
    "round_double (7 / 1000) \<noteq> round_double (8 / 1000)"
    "round_float 3 (fmul (Fin (5 / 2)) (Fin 5)) = Fin (25 / 2)"
    by code_simp+
  from total_weight_of_line[OF cube_line] total_weight_of_line[OF example_line]
    cube_line example_line f t r
  show ?thesis by simp
qed

subsection \<open>Dimensions and volume\<close>

lemma dimension_Nil [simp]: "dimension E n [] = None"
  by (simp add: dimension_def map_filter_simps)

lemma dimension_Cons:
  "dimension E n (x # xs) =
     (case dimension E n xs of None \<Rightarrow> attr_value E n x | Some v \<Rightarrow> Some v)"
  by (cases "attr_value E n x"; cases "List.map_filter (attr_value E n) xs")
     (simp_all add: dimension_def map_filter_simps)

lemma dimension_present: "dimension E n attrs \<noteq> None \<longleftrightarrow> present E n attrs"
  by (induction attrs) (auto simp: dimension_Cons present_def split: option.splits)

text \<open>One step of the scan never fails on a dictionary, whatever its value is.\<close>

lemma scan_attr_dict:
  "scan_attr E (a, b, c, sc) (VDict kv) =
     Inr ((case attr_value E ''Ancho [cm]'' (VDict kv) of None \<Rightarrow> a | Some v \<Rightarrow> Some v),
          (case attr_value E ''Alto [cm]'' (VDict kv) of None \<Rightarrow> b | Some v \<Rightarrow> Some v),
          (case attr_value E ''Fondo [cm]'' (VDict kv) of None \<Rightarrow> c | Some v \<Rightarrow> Some v),
          (if dget_default kv ''name'' (VStr []) = VStr ''Product Line''
              \<or> dget_default kv ''name'' (VStr []) = VStr ''3. Product Line''
           then dget kv ''value'' else sc))"
  by (simp add: Let_def split: option.splits)

lemma scan_attrs_dims:
  "scan_attrs E (a, b, c, sc) attrs = Inr (a', b', c', sc') \<Longrightarrow>
     a' = (case dimension E ''Ancho [cm]'' attrs of None \<Rightarrow> a | Some v \<Rightarrow> Some v)
   \<and> b' = (case dimension E ''Alto [cm]'' attrs of None \<Rightarrow> b | Some v \<Rightarrow> Some v)
   \<and> c' = (case dimension E ''Fondo [cm]'' attrs of None \<Rightarrow> c | Some v \<Rightarrow> Some v)"
proof (induction attrs arbitrary: a b c sc)
  case Nil
  then show ?case by simp
next
  case (Cons x xs)
  show ?case
  proof (cases x)
    case (VDict kv)
    from Cons.prems obtain a1 b1 c1 sc1 where
      step: "scan_attr E (a, b, c, sc) x = Inr (a1, b1, c1, sc1)"
      and rest: "scan_attrs E (a1, b1, c1, sc1) xs = Inr (a', b', c', sc')"
      by (auto split: sum.splits)
    from step VDict have
      s: "a1 = (case attr_value E ''Ancho [cm]'' x of None \<Rightarrow> a | Some v \<Rightarrow> Some v)"
         "b1 = (case attr_value E ''Alto [cm]'' x of None \<Rightarrow> b | Some v \<Rightarrow> Some v)"
         "c1 = (case attr_value E ''Fondo [cm]'' x of None \<Rightarrow> c | Some v \<Rightarrow> Some v)"
      by (simp_all only: scan_attr_dict sum.inject prod.inject)
    from Cons.IH[OF rest] show ?thesis
      unfolding s by (simp add: dimension_Cons split: option.splits)
  qed (use Cons.prems in simp_all)
qed

lemma volume_of_eq_None:
  "volume_of a b c \<noteq> VNone \<longleftrightarrow> a \<noteq> None \<and> b \<noteq> None \<and> c \<noteq> None"
  by (cases a; cases b; cases c) simp_all

text \<open>
  Claim C3. For an order line resolved through the catalog (Branch A), the volume of
  the resolved line is not \<^verbatim>\<open>None\<close> if and only if each of \<^verbatim>\<open>Ancho [cm]\<close>,
  \<^verbatim>\<open>Alto [cm]\<close> and \<^verbatim>\<open>Fondo [cm]\<close> is present in the attribute list of the catalog
  entry with a value that \<^verbatim>\<open>float\<close> accepts; it is then width times height times depth
  divided by 1,000,000 and rounded to 5 decimals, computed on floats (each product and
  the quotient rounded to the nearest double, then \<^verbatim>\<open>round(..., 5)\<close> on that double),
  each dimension taken from the last attribute that counts for it. A dictionary whose
  value \<^verbatim>\<open>float\<close> refuses is skipped: a step of the scan on a dictionary never raises.
\<close>

theorem volume_of_line:
  assumes "find_info L (item_pid item) = Inr (Some info)"
    and "resolve_item E L (VDict item) = Inr (subcat, d)"
  shows "(field d Volume \<noteq> VNone
          \<longleftrightarrow> present E ''Ancho [cm]'' (attributes_of info)
              \<and> present E ''Alto [cm]'' (attributes_of info)
              \<and> present E ''Fondo [cm]'' (attributes_of info))
    \<and> (\<forall>w h dp.
          dimension E ''Ancho [cm]'' (attributes_of info) = Some w
          \<and> dimension E ''Alto [cm]'' (attributes_of info) = Some h
          \<and> dimension E ''Fondo [cm]'' (attributes_of info) = Some dp
          \<longrightarrow> field d Volume
                = VFloat (round_float 5 (fdiv_by (fmul (fmul w h) dp) 1000000)))
    \<and> (\<forall>st kv e. scan_attr E st (VDict kv) \<noteq> Inl e)"
proof -
  from assms obtain attrs st where
    it: "py_iter (py_or (info_Attributes info) (VList [])) = Inr attrs"
    and sc: "scan_attrs E (None, None, None, default_subcat) attrs = Inr st"
    and m: "make_data (dget_default item ''units'' (VInt 0)) (info_Product info)
              (info_SKU info) (info_Stock_Real info) (info_Weight info) st = Inr (subcat, d)"
    by (auto simp: branch_a_def split: sum.splits)
  from it have attrs: "attributes_of info = attrs"
    by (simp add: attributes_of_def)
  obtain a b c sc0 where st: "st = (a, b, c, sc0)" by (cases st)
  from scan_attrs_dims[OF sc[unfolded st]] have dims:
    "a = dimension E ''Ancho [cm]'' attrs"
    "b = dimension E ''Alto [cm]'' attrs"
    "c = dimension E ''Fondo [cm]'' attrs"
    by (simp_all split: option.splits)
  from m st have vol: "field d Volume = volume_of a b c"
    by (auto simp: make_data_Inr)
  have 1: "field d Volume \<noteq> VNone
          \<longleftrightarrow> present E ''Ancho [cm]'' (attributes_of info)
              \<and> present E ''Alto [cm]'' (attributes_of info)
              \<and> present E ''Fondo [cm]'' (attributes_of info)"
    unfolding vol volume_of_eq_None dims attrs dimension_present ..
  have 2: "field d Volume = VFloat (round_float 5 (fdiv_by (fmul (fmul w h) dp) 1000000))"
    if "dimension E ''Ancho [cm]'' (attributes_of info) = Some w"
       "dimension E ''Alto [cm]'' (attributes_of info) = Some h"
       "dimension E ''Fondo [cm]'' (attributes_of info) = Some dp" for w h dp
    using that unfolding vol dims attrs by simp
  have 3: "scan_attr E st (VDict kv) \<noteq> Inl e" for st kv e
    by (cases st) (simp add: scan_attr_dict del: scan_attr.simps)
  from 1 2 3 show ?thesis by blast
qed

text \<open>
  The box of the example catalog measures 40 by 30 by 25 and has the volume
  \<^verbatim>\<open>0.03\<close>. The cube measures 5 by 5 by 5: \<^verbatim>\<open>125.0 / 1000000\<close> is a double above the
  decimal 0.000125, and its volume is \<^verbatim>\<open>0.00013\<close> (not \<^verbatim>\<open>0.00012\<close>, which rounding
  the decimal to the even digit would give). Its height is given twice: the list
  \<^verbatim>\<open>[]\<close> of the later attribute is skipped, and so is an integer beyond the doubles.
\<close>

theorem volume_of_line_witness:
  "resolve_item example_env example_lookup (VDict cube_item)
     = Inr (default_subcat, cube_data)
   \<and> dimension example_env ''Ancho [cm]'' cube_attributes = Some (Fin 5)
   \<and> dimension example_env ''Alto [cm]'' cube_attributes = Some (Fin 5)
   \<and> dimension example_env ''Fondo [cm]'' cube_attributes = Some (Fin 5)
   \<and> field cube_data Volume
       = VFloat (round_float 5 (fdiv_by (fmul (fmul (Fin 5) (Fin 5)) (Fin 5)) 1000000))
   \<and> round_float 5 (fdiv_by (fmul (fmul (Fin 5) (Fin 5)) (Fin 5)) 1000000)
       = round_double (13 / 100000)
   \<and> round_double (13 / 100000) \<noteq> round_double (12 / 100000)
   \<and> resolve_item example_env example_lookup (VDict example_item)
       = Inr (default_subcat, example_data)
   \<and> field example_data Volume
       = VFloat (round_float 5 (fdiv_by (fmul (fmul (Fin 40) (Fin 30)) (Fin 25)) 1000000))
   \<and> round_float 5 (fdiv_by (fmul (fmul (Fin 40) (Fin 30)) (Fin 25)) 1000000)
       = round_double (3 / 100)
   \<and> py_float example_env (VInt (10 ^ 400)) = None"
proof -
  have f: "find_info example_lookup (item_pid cube_item)
     = Inr (Some \<lparr> info_Product = VStr ''Cube'', info_SKU = VStr ''B-2'',
                    info_Stock_Real = VFloat (round_double (3 / 10)),
                    info_Weight = VFloat (round_double (15 / 10000)),
                    info_Attributes = VList cube_attributes \<rparr>)"
    by (simp add: example_lookup_eq cube_item_def find_info_def item_pid_def dget_def
        dget_default_def py_eq_def)
  have a: "attributes_of \<lparr> info_Product = VStr ''Cube'', info_SKU = VStr ''B-2'',
                    info_Stock_Real = VFloat (round_double (3 / 10)),
                    info_Weight = VFloat (round_double (15 / 10000)),
                    info_Attributes = VList cube_attributes \<rparr> = cube_attributes"
    by (simp add: attributes_of_def py_or_def cube_attributes_def)
  have f': "find_info example_lookup (item_pid example_item)
     = Inr (Some \<lparr> info_Product = VStr ''Box'', info_SKU = VStr ''A-1'',
                    info_Stock_Real = VInt 3, info_Weight = VFloat (Fin (5 / 2)),
                    info_Attributes = VList example_attributes \<rparr>)"
    by (simp add: example_lookup_eq example_item_def find_info_def item_pid_def dget_def
        dget_default_def py_eq_def)
  have a': "attributes_of \<lparr> info_Product = VStr ''Box'', info_SKU = VStr ''A-1'',
                    info_Stock_Real = VInt 3, info_Weight = VFloat (Fin (5 / 2)),
                    info_Attributes = VList example_attributes \<rparr> = example_attributes"
    by (simp add: attributes_of_def py_or_def example_attributes_def)
  have r: "round_float 5 (fdiv_by (fmul (fmul (Fin 5) (Fin 5)) (Fin 5)) 1000000)
             = round_double (13 / 100000)"
    "round_double (13 / 100000) \<noteq> round_double (12 / 100000)"
    "round_float 5 (fdiv_by (fmul (fmul (Fin 40) (Fin 30)) (Fin 25)) 1000000)
       = round_double (3 / 100)"
    by code_simp+
  have dims: "dimension example_env ''Ancho [cm]'' cube_attributes = Some (Fin 5)"
    "dimension example_env ''Alto [cm]'' cube_attributes = Some (Fin 5)"
    "dimension example_env ''Fondo [cm]'' cube_attributes = Some (Fin 5)"
    "dimension example_env ''Ancho [cm]'' example_attributes = Some (Fin 40)"
    "dimension example_env ''Alto [cm]'' example_attributes = Some (Fin 30)"
    "dimension example_env ''Fondo [cm]'' example_attributes = Some (Fin 25)"
    by code_simp+
  have h: "py_float example_env (VInt (10 ^ 400)) = None"
    by (simp only: py_float.simps float_of_int_huge sum.case)
  from volume_of_line[OF f cube_line] volume_of_line[OF f' example_line]
    dims r cube_line example_line h
  show ?thesis
    unfolding a a' by simp
qed

subsection \<open>The pallet summary\<close>

lemma round_double_not_nan [simp]: "round_double x \<noteq> FNaN"
  by (simp add: round_double_def Let_def infinity_def)

lemma fdiv_by_nan [simp]: "fdiv_by x c = FNaN \<longleftrightarrow> x = FNaN"
  by (cases x) simp_all

lemma rint_nan [simp]: "rint x = FNaN \<longleftrightarrow> x = FNaN"
  by (cases x) simp_all

lemma fmul_Fin_nan [simp]: "0 < c \<Longrightarrow> fmul x (Fin c) = FNaN \<longleftrightarrow> x = FNaN"
  by (cases x) (simp_all add: infinity_def)

lemma np_round_nan [simp]: "np_round d x = FNaN \<longleftrightarrow> x = FNaN"
  by (simp add: np_round_def)

lemma pallets_by_eq:
  "pallets_by c t = (if t = FNaN \<or> t = Fin 0 then Fin 0 else np_round 3 (fdiv_by t c))"
  by (simp add: pallets_by_def Let_def)

lemma pallets_by_not_nan [simp]: "pallets_by c t \<noteq> FNaN"
  by (simp add: pallets_by_eq)

lemma py_max_Fin [simp]: "py_max (Fin a) (Fin b) = Fin (max a b)"
  by (auto simp: py_max_def flt_def)

lemma py_max_not_nan: "a \<noteq> FNaN \<Longrightarrow> b \<noteq> FNaN \<Longrightarrow> py_max a b \<noteq> FNaN"
  by (simp add: py_max_def)

text \<open>Rounding to a double moves a number by less than its own size plus one.\<close>

lemma round_half_even_near: "\<bar>of_int (round_half_even x) - x\<bar> \<le> 1 / 2"
proof -
  have "of_int \<lfloor>x\<rfloor> \<le> x" "x < of_int \<lfloor>x\<rfloor> + 1" by linarith+
  then show ?thesis
    by (auto simp: round_half_even_def Let_def abs_le_iff)
qed

lemma round_double_size:
  assumes "round_double x = Fin r"
  shows "\<bar>r\<bar> \<le> 2 * \<bar>x\<bar> + 1"
proof (cases "x = 0")
  case True
  with assms show ?thesis by (simp add: round_double_def)
next
  case False
  define a where "a = \<bar>x\<bar>"
  define q where "q = max (ilog2 a - 52) (- 1074)"
  define m where "m = round_half_even (a / pow2 q)"
  from False have pos: "0 < a" by (simp add: a_def)
  from assms False have r: "r = sgn x * of_int m * pow2 q"
    by (auto simp: round_double_def Let_def a_def q_def m_def infinity_def split: if_splits)
  have m0: "0 \<le> m"
    unfolding m_def by (rule round_half_even_nonneg) (simp add: pos less_imp_le)
  have "\<bar>of_int m - a / pow2 q\<bar> \<le> 1 / 2"
    unfolding m_def by (rule round_half_even_near)
  then have "of_int m \<le> a / pow2 q + 1 / 2" by linarith
  then have "of_int m * pow2 q \<le> (a / pow2 q + 1 / 2) * pow2 q"
    by (rule mult_right_mono) (simp add: less_imp_le)
  also have "\<dots> = a + pow2 q / 2"
  proof -
    have "pow2 q \<noteq> 0" by (metis pow2_pos less_irrefl)
    then show ?thesis by (simp add: field_simps)
  qed
  finally have b: "of_int m * pow2 q \<le> a + pow2 q / 2" .
  have "pow2 q \<le> a + 1"
  proof (cases "ilog2 a - 52 \<le> - 1074")
    case True
    then have "q = - 1074" by (simp add: q_def)
    then have "pow2 q \<le> pow2 0" by (simp add: pow2_mono)
    also have "\<dots> \<le> a + 1" using pos by (simp add: pow2_def)
    finally show ?thesis .
  next
    case False
    then have "q = ilog2 a - 52" by (simp add: q_def)
    then have "pow2 q \<le> pow2 (ilog2 a)" by (simp add: pow2_mono)
    also have "\<dots> \<le> a" by (rule ilog2_bounds(1)[OF pos])
    finally show ?thesis by simp
  qed
  with b have "of_int m * pow2 q \<le> 2 * a + 1" using pos by simp
  moreover have "\<bar>r\<bar> = of_int m * pow2 q"
    unfolding r using False m0 by (simp add: abs_mult abs_sgn_eq less_imp_le)
  ultimately show ?thesis by (simp add: a_def)
qed

lemma round_double_moderate:
  assumes "\<bar>x\<bar> < 2 ^ 100"
  shows "\<exists>r. round_double x = Fin r \<and> \<bar>r\<bar> < 2 ^ 102"
proof -
  have "\<bar>x\<bar> < 2 ^ 1023"
    using assms by (rule less_trans) simp
  from round_double_finite[OF this] obtain r where r: "round_double x = Fin r" by blast
  from round_double_size[OF r] assms have "\<bar>r\<bar> < 2 ^ 102" by simp
  with r show ?thesis by blast
qed

lemma np_round_3_finite:
  assumes "\<bar>a\<bar> < 2 ^ 70"
  shows "\<exists>r. np_round 3 (Fin a) = Fin r"
proof -
  have "\<bar>a * 1000\<bar> < 2 ^ 100"
    using assms by (simp add: abs_mult)
  from round_double_moderate[OF this] obtain r1 where
    r1: "round_double (a * 1000) = Fin r1" "\<bar>r1\<bar> < 2 ^ 102" by blast
  have "\<bar>of_int (round_half_even r1) - r1\<bar> \<le> 1 / 2"
    by (rule round_half_even_near)
  then have "\<bar>(of_int (round_half_even r1) :: rat)\<bar> \<le> \<bar>r1\<bar> + 1 / 2"
    by linarith
  also have "\<dots> < 2 ^ 102 + 1 / 2" using r1(2) by simp
  also have "\<dots> < 2 ^ 103" by simp
  finally have "\<bar>(of_int (round_half_even r1) :: rat)\<bar> < 2 ^ 103" .
  then have "\<bar>(of_int (round_half_even r1) :: rat) / 1000\<bar> < 2 ^ 1023"
    by (simp add: abs_less_iff)
  from round_double_finite[OF this] r1(1) show ?thesis
    by (simp add: np_round_def)
qed

lemma pallets_by_finite:
  assumes "1 \<le> c" and "\<bar>a\<bar> < 2 ^ 64"
  shows "\<exists>r. pallets_by c (Fin a) = Fin r"
proof (cases "a = 0")
  case True
  then show ?thesis by (simp add: pallets_by_eq)
next
  case False
  have "\<bar>a / c\<bar> = \<bar>a\<bar> / c"
    using assms(1) by simp
  also have "\<dots> \<le> \<bar>a\<bar> / 1"
    using assms(1) by (intro divide_left_mono) simp_all
  finally have "\<bar>a / c\<bar> \<le> \<bar>a\<bar>" by simp
  with assms(2) have "\<bar>a / c\<bar> < 2 ^ 64" by simp
  then have "\<bar>a / c\<bar> < 2 ^ 100" by (rule less_trans) simp
  from round_double_moderate[OF this] obtain r0 where
    r0: "round_double (a / c) = Fin r0" and b: "\<bar>r0\<bar> \<le> 2 * \<bar>a / c\<bar> + 1"
    using round_double_size by blast
  from b \<open>\<bar>a / c\<bar> < 2 ^ 64\<close> have "\<bar>r0\<bar> < 2 ^ 70" by simp
  from np_round_3_finite[OF this] r0 False show ?thesis
    by (simp add: pallets_by_eq)
qed

lemma literal_1728: "literal (1728 / 1000) = 7782220156096217 / 4503599627370496"
  by code_simp



end
